theory Spec2Isabelle
  imports Main
begin

section \<open>The fitness club manager: data model\<close>

text \<open>
  The program is a console application over a relational store (models/models.py declares
  the tables, app/main.py the operations). The store is modelled as a record of tables,
  each table a list of rows in insertion order, together with the counters of the
  auto-increment keys. Every operation of app/main.py is a function from the operator's
  input lines and the store to the new store and an outcome.

  Dates and instants are integers of which only equality and order matter.
\<close>

type_synonym date = int
type_synonym datetime = int

subsection \<open>Tables of models/models.py\<close>

record Member =
  member_id :: int
  name :: string
  email :: string
  date_of_birth :: "date option"
  gender :: "string option"
  phone :: "string option"

record Trainer =
  trainer_id :: int
  name :: string
  email :: string
  specialization :: "string option"

record Admin =
  admin_id :: int
  username :: string
  password_hash :: string
  name :: string
  email :: string

record 'v HealthMetric =
  metric_id :: int
  member_id :: int
  metric_type :: string
  metric_value :: 'v
  timestamp :: datetime

record Room =
  room_id :: int
  name :: string
  capacity :: int

record Class =
  class_id :: int
  trainer_id :: int
  room_id :: int
  class_name :: string
  class_time :: datetime
  capacity :: int

record PTSession =
  session_id :: int
  member_id :: int
  trainer_id :: int
  session_time :: datetime
  status :: string

record ClassEnrollment =
  enrollment_id :: int
  member_id :: int
  class_id :: int
  enrollment_date :: datetime

text \<open>
  The store. A counter \<open>*_seq\<close> holds the next value of the table's auto-increment key
  (the first key is 1). The FitnessGoal table is left out: no operation writes it.
  \<open>summary_view\<close> and \<open>class_trigger\<close> tell whether the store holds the view and the
  trigger that create_view_and_trigger tries to create.
\<close>

record 'v db =
  members :: "Member list"
  trainers :: "Trainer list"
  admins :: "Admin list"
  health_metrics :: "'v HealthMetric list"
  rooms :: "Room list"
  classes :: "Class list"
  pt_sessions :: "PTSession list"
  enrollments :: "ClassEnrollment list"
  member_seq :: int
  trainer_seq :: int
  admin_seq :: int
  metric_seq :: int
  room_seq :: int
  class_seq :: int
  session_seq :: int
  enrollment_seq :: int
  summary_view :: bool
  class_trigger :: bool

definition empty_db :: "'v db" where
  "empty_db = \<lparr>members = [], trainers = [], admins = [], health_metrics = [], rooms = [],
     classes = [], pt_sessions = [], enrollments = [],
     member_seq = 1, trainer_seq = 1, admin_seq = 1, metric_seq = 1, room_seq = 1,
     class_seq = 1, session_seq = 1, enrollment_seq = 1,
     summary_view = False, class_trigger = False\<rparr>"

subsection \<open>The platform\<close>

text \<open>
  The library calls of app/main.py are parameters of the model, so that every theorem
  holds whatever they compute: \<open>py_int\<close> is \<^verbatim>\<open>int(s)\<close>, \<open>py_float\<close> is \<^verbatim>\<open>float(s)\<close>,
  \<open>strptime_date\<close> is \<^verbatim>\<open>datetime.strptime(s, "%Y-%m-%d").date()\<close>, \<open>strptime_minute\<close> is
  \<^verbatim>\<open>datetime.strptime(s, "%Y-%m-%d %H:%M")\<close> and \<open>str_strip\<close> is \<^verbatim>\<open>s.strip()\<close>; the value
  None stands for the ValueError the call raises. \<open>numeric_6_2\<close> is the store's coercion of
  a value to the column type Numeric(6, 2), None when the value does not fit. The type
  \<open>'v\<close> of measured values is left open (floating point is not modelled).

  \<open>autobegin\<close> is how a Connection of the installed SQLAlchemy runs the statements of
  create_view_and_trigger. True (SQLAlchemy 2.0): the first statement begins a transaction,
  and once a statement has failed the store refuses every later statement of the connection
  until a rollback, which create_view_and_trigger never issues. False (SQLAlchemy 1.4): each
  of these statements is committed on its own, and a failed one does not affect the next.
\<close>

record 'v platform =
  py_int :: "string \<Rightarrow> int option"
  py_float :: "string \<Rightarrow> 'v option"
  strptime_date :: "string \<Rightarrow> date option"
  strptime_minute :: "string \<Rightarrow> datetime option"
  str_strip :: "string \<Rightarrow> string"
  numeric_6_2 :: "'v \<Rightarrow> 'v option"
  autobegin :: bool

text \<open>\<^verbatim>\<open>input(...) or None\<close>: the empty line is falsy.\<close>

definition or_None :: "string \<Rightarrow> string option" where
  "or_None s = (if s = [] then None else Some s)"

subsection \<open>Exceptions and outcomes\<close>

text \<open>
  The exceptions the operations meet: Python's ValueError, and the errors the store
  raises: a constraint violation (IntegrityError, with the name of the constraint), a value
  that does not fit its column (DataError), the RAISE EXCEPTION of a trigger function, and
  a statement that names a relation the store does not have (UndefinedTable).
\<close>

datatype exn =
  ValueError | IntegrityError string | DataError | RaiseException | UndefinedTable

text \<open>
  What an operation does at its end. \<open>Failed e\<close>: the exception \<open>e\<close> was caught by the
  operation, \<^verbatim>\<open>session.rollback()\<close> was called and a message printed. \<open>Uncaught e\<close>: the
  exception left the operation. The other outcomes print a message and return.
  \<open>CapacityExceedsRoom\<close> is the specification's name for an application-level rejection of
  a class; it is listed so that statements can mention it.
\<close>

datatype outcome =
    Done
  | DoneId int
  | DoneRemaining int
  | Invalid
  | NotFound
  | AlreadyEnrolled
  | ClassFull
  | CapacityExceedsRoom
  | Failed exn
  | Uncaught exn

section \<open>The store: column types, constraints and the trigger\<close>

text \<open>Column types: Integer is a 32-bit integer, String(n) holds at most n characters.\<close>

definition int4 :: "int \<Rightarrow> bool" where
  "int4 n = (- 2147483648 \<le> n \<and> n \<le> 2147483647)"

definition varchar :: "nat \<Rightarrow> string \<Rightarrow> bool" where
  "varchar n s = (length s \<le> n)"

definition varchar_opt :: "nat \<Rightarrow> string option \<Rightarrow> bool" where
  "varchar_opt n s = (case s of None \<Rightarrow> True | Some t \<Rightarrow> varchar n t)"

text \<open>
  An INSERT evaluates the row (a value that does not fit its column is a DataError, before
  anything else), takes the next key from the sequence (which a later failure does not give
  back), fires the BEFORE ROW trigger, checks the CHECK constraints, then the unique
  constraints, then the foreign keys. It returns the store, with the row added on success,
  and the new key or the exception.
\<close>

definition insert_Member ::
  "'v db \<Rightarrow> string \<Rightarrow> string \<Rightarrow> date option \<Rightarrow> string option \<Rightarrow> string option
     \<Rightarrow> 'v db \<times> (exn + int)" where
  "insert_Member d nm em dob gen ph =
     (if \<not> (varchar 100 nm \<and> varchar 100 em \<and> varchar_opt 10 gen \<and> varchar_opt 20 ph)
      then (d, Inl DataError)
      else let k = member_seq d; d1 = d\<lparr>member_seq := k + 1\<rparr> in
        if em \<in> set (map Member.email (members d))
        then (d1, Inl (IntegrityError ''Member_email_key''))
        else (d1\<lparr>members := members d @
                [\<lparr>Member.member_id = k, Member.name = nm, Member.email = em,
                  date_of_birth = dob, gender = gen, phone = ph\<rparr>]\<rparr>, Inr k))"

definition insert_Trainer ::
  "'v db \<Rightarrow> string \<Rightarrow> string \<Rightarrow> string option \<Rightarrow> 'v db \<times> (exn + int)" where
  "insert_Trainer d nm em sp =
     (if \<not> (varchar 100 nm \<and> varchar 100 em \<and> varchar_opt 100 sp)
      then (d, Inl DataError)
      else let k = trainer_seq d; d1 = d\<lparr>trainer_seq := k + 1\<rparr> in
        if em \<in> set (map Trainer.email (trainers d))
        then (d1, Inl (IntegrityError ''Trainer_email_key''))
        else (d1\<lparr>trainers := trainers d @
                [\<lparr>Trainer.trainer_id = k, Trainer.name = nm, Trainer.email = em,
                  specialization = sp\<rparr>]\<rparr>, Inr k))"

definition insert_Admin ::
  "'v db \<Rightarrow> string \<Rightarrow> string \<Rightarrow> string \<Rightarrow> string \<Rightarrow> 'v db \<times> (exn + int)" where
  "insert_Admin d un pw nm em =
     (if \<not> (varchar 50 un \<and> varchar 255 pw \<and> varchar 100 nm \<and> varchar 100 em)
      then (d, Inl DataError)
      else let k = admin_seq d; d1 = d\<lparr>admin_seq := k + 1\<rparr> in
        if un \<in> set (map username (admins d))
        then (d1, Inl (IntegrityError ''Admin_username_key''))
        else if em \<in> set (map Admin.email (admins d))
        then (d1, Inl (IntegrityError ''Admin_email_key''))
        else (d1\<lparr>admins := admins d @
                [\<lparr>admin_id = k, username = un, password_hash = pw, Admin.name = nm,
                  Admin.email = em\<rparr>]\<rparr>, Inr k))"

definition insert_HealthMetric ::
  "'v platform \<Rightarrow> 'v db \<Rightarrow> int \<Rightarrow> string \<Rightarrow> 'v \<Rightarrow> datetime \<Rightarrow> 'v db \<times> (exn + int)" where
  "insert_HealthMetric p d mid ty v ts =
     (case numeric_6_2 p v of
        None \<Rightarrow> (d, Inl DataError)
      | Some v' \<Rightarrow>
          if \<not> (int4 mid \<and> varchar 50 ty) then (d, Inl DataError)
          else let k = metric_seq d; d1 = d\<lparr>metric_seq := k + 1\<rparr> in
            if mid \<notin> set (map Member.member_id (members d))
            then (d1, Inl (IntegrityError ''HealthMetric_member_id_fkey''))
            else (d1\<lparr>health_metrics := health_metrics d @
                    [\<lparr>metric_id = k, HealthMetric.member_id = mid, metric_type = ty,
                      metric_value = v', timestamp = ts\<rparr>]\<rparr>, Inr k))"

definition insert_Room :: "'v db \<Rightarrow> string \<Rightarrow> int \<Rightarrow> 'v db \<times> (exn + int)" where
  "insert_Room d nm cap =
     (if \<not> (varchar 50 nm \<and> int4 cap) then (d, Inl DataError)
      else let k = room_seq d; d1 = d\<lparr>room_seq := k + 1\<rparr> in
        if \<not> cap > 0 then (d1, Inl (IntegrityError ''check_capacity_positive''))
        else if nm \<in> set (map Room.name (rooms d))
        then (d1, Inl (IntegrityError ''Room_name_key''))
        else (d1\<lparr>rooms := rooms d @
                [\<lparr>Room.room_id = k, Room.name = nm, Room.capacity = cap\<rparr>]\<rparr>, Inr k))"

text \<open>
  The names of relations. create_all creates the tables of models.py under their
  \<^verbatim>\<open>__tablename__\<close>, written in quotes because they have capital letters (create_tables
  looks for these very names in the inspector's list). The store folds a name that a
  statement writes without quotes to lower case before it looks it up. The only other
  relation the program ever asks for is the view, whose name it writes without quotes.
\<close>

definition table_names :: "string list" where
  "table_names =
     [''Member'', ''Trainer'', ''Admin'', ''Room'', ''Class'', ''FitnessGoal'', ''HealthMetric'',
      ''PTSession'', ''ClassEnrollment'']"

definition fold_char :: "char \<Rightarrow> char" where
  "fold_char c =
     (case map_of (zip ''ABCDEFGHIJKLMNOPQRSTUVWXYZ'' ''abcdefghijklmnopqrstuvwxyz'') c of
        None \<Rightarrow> c
      | Some l \<Rightarrow> l)"

definition unquoted :: "string \<Rightarrow> string" where
  "unquoted nm = map fold_char nm"

definition relation_exists :: "'v db \<Rightarrow> string \<Rightarrow> bool" where
  "relation_exists d nm =
     (nm \<in> set table_names \<or> (summary_view d \<and> nm = unquoted ''MemberHealthSummary''))"

text \<open>
  The trigger function \<^verbatim>\<open>check_class_capacity\<close> of create_view_and_trigger, which the
  trigger \<^verbatim>\<open>trg_check_class_capacity\<close> runs BEFORE INSERT OR UPDATE on "Class" for each row.
  Its first statement selects the capacity \<^verbatim>\<open>FROM Room\<close>, the name without quotes: when the
  store has no relation of the folded name, the statement raises and the function ends
  there. Otherwise the function raises when the row's capacity is greater than the
  selected one; when no room has the row's key the selected value is NULL, the comparison
  is not true and nothing is raised. The body of a function is looked at when it runs, not
  when CREATE FUNCTION stores it. The result is the exception raised, if any.
\<close>

definition room_capacity :: "'v db \<Rightarrow> int \<Rightarrow> int option" where
  "room_capacity d rid =
     map_option Room.capacity (find (\<lambda>r. Room.room_id r = rid) (rooms d))"

definition check_class_capacity :: "'v db \<Rightarrow> int \<Rightarrow> int \<Rightarrow> exn option" where
  "check_class_capacity d new_room_id new_capacity =
     (if \<not> relation_exists d (unquoted ''Room'') then Some UndefinedTable
      else case room_capacity d new_room_id of
             None \<Rightarrow> None
           | Some rc \<Rightarrow> if new_capacity > rc then Some RaiseException else None)"

text \<open>The trigger fires only in a store that holds it.\<close>

definition insert_Class ::
  "'v db \<Rightarrow> int \<Rightarrow> int \<Rightarrow> string \<Rightarrow> datetime \<Rightarrow> int \<Rightarrow> 'v db \<times> (exn + int)" where
  "insert_Class d tid rid nm tm cap =
     (if \<not> (int4 tid \<and> int4 rid \<and> varchar 100 nm \<and> int4 cap) then (d, Inl DataError)
      else let k = class_seq d; d1 = d\<lparr>class_seq := k + 1\<rparr> in
        case (if class_trigger d then check_class_capacity d rid cap else None) of
          Some e \<Rightarrow> (d1, Inl e)
        | None \<Rightarrow>
            if \<not> cap > 0 then (d1, Inl (IntegrityError ''check_class_capacity_positive''))
            else if (rid, tm) \<in> set (map (\<lambda>c. (Class.room_id c, class_time c)) (classes d))
            then (d1, Inl (IntegrityError ''uq_room_time''))
            else if tid \<notin> set (map Trainer.trainer_id (trainers d))
            then (d1, Inl (IntegrityError ''Class_trainer_id_fkey''))
            else if rid \<notin> set (map Room.room_id (rooms d))
            then (d1, Inl (IntegrityError ''Class_room_id_fkey''))
            else (d1\<lparr>classes := classes d @
                    [\<lparr>Class.class_id = k, Class.trainer_id = tid, Class.room_id = rid,
                      class_name = nm, class_time = tm, Class.capacity = cap\<rparr>]\<rparr>, Inr k))"

definition insert_PTSession ::
  "'v db \<Rightarrow> int \<Rightarrow> int \<Rightarrow> datetime \<Rightarrow> string \<Rightarrow> 'v db \<times> (exn + int)" where
  "insert_PTSession d mid tid tm st =
     (if \<not> (int4 mid \<and> int4 tid \<and> varchar 20 st) then (d, Inl DataError)
      else let k = session_seq d; d1 = d\<lparr>session_seq := k + 1\<rparr> in
        if (tid, tm) \<in> set (map (\<lambda>s. (PTSession.trainer_id s, session_time s)) (pt_sessions d))
        then (d1, Inl (IntegrityError ''uq_trainer_time''))
        else if mid \<notin> set (map Member.member_id (members d))
        then (d1, Inl (IntegrityError ''PTSession_member_id_fkey''))
        else if tid \<notin> set (map Trainer.trainer_id (trainers d))
        then (d1, Inl (IntegrityError ''PTSession_trainer_id_fkey''))
        else (d1\<lparr>pt_sessions := pt_sessions d @
                [\<lparr>session_id = k, PTSession.member_id = mid, PTSession.trainer_id = tid,
                  session_time = tm, status = st\<rparr>]\<rparr>, Inr k))"

definition insert_ClassEnrollment ::
  "'v db \<Rightarrow> int \<Rightarrow> int \<Rightarrow> datetime \<Rightarrow> 'v db \<times> (exn + int)" where
  "insert_ClassEnrollment d mid cid dt =
     (if \<not> (int4 mid \<and> int4 cid) then (d, Inl DataError)
      else let k = enrollment_seq d; d1 = d\<lparr>enrollment_seq := k + 1\<rparr> in
        if (mid, cid) \<in> set (map (\<lambda>e. (ClassEnrollment.member_id e, ClassEnrollment.class_id e))
                               (enrollments d))
        then (d1, Inl (IntegrityError ''uq_member_class''))
        else if mid \<notin> set (map Member.member_id (members d))
        then (d1, Inl (IntegrityError ''ClassEnrollment_member_id_fkey''))
        else if cid \<notin> set (map Class.class_id (classes d))
        then (d1, Inl (IntegrityError ''ClassEnrollment_class_id_fkey''))
        else (d1\<lparr>enrollments := enrollments d @
                [\<lparr>enrollment_id = k, ClassEnrollment.member_id = mid,
                  ClassEnrollment.class_id = cid, enrollment_date = dt\<rparr>]\<rparr>, Inr k))"

text \<open>
  The UPDATE the session issues at commit for a Member object whose \<open>name\<close> and \<open>phone\<close>
  attributes were assigned (None: not assigned).
\<close>

definition update_Member ::
  "'v db \<Rightarrow> int \<Rightarrow> string option \<Rightarrow> string option \<Rightarrow> exn + 'v db" where
  "update_Member d mid new_name new_phone =
     (if \<not> (varchar_opt 100 new_name \<and> varchar_opt 20 new_phone) then Inl DataError
      else Inr (d\<lparr>members := map (\<lambda>m. if Member.member_id m = mid
          then m\<lparr>Member.name := (case new_name of None \<Rightarrow> Member.name m | Some n \<Rightarrow> n),
                 phone := (case new_phone of None \<Rightarrow> phone m | Some q \<Rightarrow> Some q)\<rparr>
          else m) (members d)\<rparr>))"

section \<open>The operations of app/main.py\<close>

text \<open>
  Each operation takes the lines the operator types at its prompts, in the order of the
  prompts (a line after the point where the operation returns is not read), and the store;
  \<open>now\<close> is the value of \<^verbatim>\<open>datetime.now()\<close>. A caught exception of the store is followed by
  \<^verbatim>\<open>session.rollback()\<close>: the tables are as before, the sequence keeps its new value.
\<close>

definition register_member ::
  "'v platform \<Rightarrow> 'v db \<Rightarrow> string \<Rightarrow> string \<Rightarrow> string \<Rightarrow> string \<Rightarrow> string
     \<Rightarrow> 'v db \<times> outcome" where
  "register_member p d name_in email_in dob_in gender_in phone_in =
     (let dob_str = or_None dob_in;
          gender = or_None gender_in;
          phone = or_None phone_in;
          dob = (case dob_str of None \<Rightarrow> None | Some s \<Rightarrow> strptime_date p s)
      in case insert_Member d name_in email_in dob gender phone of
           (d', Inr k) \<Rightarrow> (d', DoneId k)
         | (d', Inl e) \<Rightarrow> (d', Failed e))"

definition update_member_profile ::
  "'v platform \<Rightarrow> 'v db \<Rightarrow> string \<Rightarrow> string \<Rightarrow> string \<Rightarrow> 'v db \<times> outcome" where
  "update_member_profile p d member_id_in name_in phone_in =
     (case py_int p member_id_in of
        None \<Rightarrow> (d, Uncaught ValueError)
      | Some mid \<Rightarrow>
          (case find (\<lambda>m. Member.member_id m = mid) (members d) of
             None \<Rightarrow> (d, NotFound)
           | Some member \<Rightarrow>
               (let new_name = or_None (str_strip p name_in);
                    new_phone = or_None (str_strip p phone_in)
                in case update_Member d mid new_name new_phone of
                     Inr d' \<Rightarrow> (d', Done)
                   | Inl e \<Rightarrow> (d, Failed e))))"

definition add_health_metric ::
  "'v platform \<Rightarrow> datetime \<Rightarrow> 'v db \<Rightarrow> string \<Rightarrow> string \<Rightarrow> string \<Rightarrow> 'v db \<times> outcome" where
  "add_health_metric p now d member_id_in metric_type_in metric_value_in =
     (case py_int p member_id_in of
        None \<Rightarrow> (d, Uncaught ValueError)
      | Some mid \<Rightarrow>
          (case py_float p metric_value_in of
             None \<Rightarrow> (d, Uncaught ValueError)
           | Some v \<Rightarrow>
               (case find (\<lambda>m. Member.member_id m = mid) (members d) of
                  None \<Rightarrow> (d, NotFound)
                | Some member \<Rightarrow>
                    (case insert_HealthMetric p d mid metric_type_in v now of
                       (d', Inr k) \<Rightarrow> (d', Done)
                     | (d', Inl e) \<Rightarrow> (d', Failed e)))))"

definition book_pt_session ::
  "'v platform \<Rightarrow> 'v db \<Rightarrow> string \<Rightarrow> string \<Rightarrow> string \<Rightarrow> 'v db \<times> outcome" where
  "book_pt_session p d member_id_in trainer_id_in session_time_in =
     (case py_int p member_id_in of
        None \<Rightarrow> (d, Invalid)
      | Some mid \<Rightarrow>
          (case py_int p trainer_id_in of
             None \<Rightarrow> (d, Invalid)
           | Some tid \<Rightarrow>
               (case strptime_minute p session_time_in of
                  None \<Rightarrow> (d, Invalid)
                | Some tm \<Rightarrow>
                    (case insert_PTSession d mid tid tm ''scheduled'' of
                       (d', Inr k) \<Rightarrow> (d', Done)
                     | (d', Inl e) \<Rightarrow> (d', Failed e)))))"

text \<open>The count of a class's enrollments, as view_available_classes and signup_for_class
  query it.\<close>

definition enrollment_count :: "'v db \<Rightarrow> int \<Rightarrow> int" where
  "enrollment_count d cid =
     int (length (filter (\<lambda>e. ClassEnrollment.class_id e = cid) (enrollments d)))"

definition signup_for_class ::
  "'v platform \<Rightarrow> datetime \<Rightarrow> 'v db \<Rightarrow> string \<Rightarrow> string \<Rightarrow> 'v db \<times> outcome" where
  "signup_for_class p now d member_id_in class_id_in =
     (case py_int p member_id_in of
        None \<Rightarrow> (d, Invalid)
      | Some mid \<Rightarrow>
          (case find (\<lambda>m. Member.member_id m = mid) (members d) of
             None \<Rightarrow> (d, NotFound)
           | Some member \<Rightarrow>
               (case py_int p class_id_in of
                  None \<Rightarrow> (d, Invalid)
                | Some cid \<Rightarrow>
                    (case find (\<lambda>c. Class.class_id c = cid) (classes d) of
                       None \<Rightarrow> (d, NotFound)
                     | Some class_obj \<Rightarrow>
                         (case find (\<lambda>e. ClassEnrollment.member_id e = mid \<and>
                                          ClassEnrollment.class_id e = cid) (enrollments d) of
                            Some existing_enrollment \<Rightarrow> (d, AlreadyEnrolled)
                          | None \<Rightarrow>
                              (let n = enrollment_count d cid in
                               if n \<ge> Class.capacity class_obj then (d, ClassFull)
                               else case insert_ClassEnrollment d mid cid now of
                                      (d', Inr k) \<Rightarrow>
                                        (d', DoneRemaining (Class.capacity class_obj - n - 1))
                                    | (d', Inl e) \<Rightarrow> (d', Failed e)))))))"

definition create_trainer ::
  "'v platform \<Rightarrow> 'v db \<Rightarrow> string \<Rightarrow> string \<Rightarrow> string \<Rightarrow> 'v db \<times> outcome" where
  "create_trainer p d name_in email_in specialization_in =
     (case insert_Trainer d name_in email_in (or_None specialization_in) of
        (d', Inr k) \<Rightarrow> (d', DoneId k)
      | (d', Inl e) \<Rightarrow> (d', Failed e))"

definition create_room :: "'v platform \<Rightarrow> 'v db \<Rightarrow> string \<Rightarrow> string \<Rightarrow> 'v db \<times> outcome" where
  "create_room p d name_in capacity_in =
     (case py_int p capacity_in of
        None \<Rightarrow> (d, Uncaught ValueError)
      | Some cap \<Rightarrow>
          (case insert_Room d name_in cap of
             (d', Inr k) \<Rightarrow> (d', DoneId k)
           | (d', Inl e) \<Rightarrow> (d', Failed e)))"

definition create_class ::
  "'v platform \<Rightarrow> 'v db \<Rightarrow> string \<Rightarrow> string \<Rightarrow> string \<Rightarrow> string \<Rightarrow> string
     \<Rightarrow> 'v db \<times> outcome" where
  "create_class p d trainer_id_in room_id_in class_name_in class_time_in capacity_in =
     (case py_int p trainer_id_in of
        None \<Rightarrow> (d, Uncaught ValueError)
      | Some tid \<Rightarrow>
          (case py_int p room_id_in of
             None \<Rightarrow> (d, Uncaught ValueError)
           | Some rid \<Rightarrow>
               (case py_int p capacity_in of
                  None \<Rightarrow> (d, Uncaught ValueError)
                | Some cap \<Rightarrow>
                    (case strptime_minute p class_time_in of
                       None \<Rightarrow> (d, Invalid)
                     | Some tm \<Rightarrow>
                         (case insert_Class d tid rid class_name_in tm cap of
                            (d', Inr k) \<Rightarrow> (d', Done)
                          | (d', Inl e) \<Rightarrow> (d', Failed e))))))"

text \<open>authenticate_admin returns the Admin row, or None.\<close>

definition authenticate_admin :: "'v db \<Rightarrow> string \<Rightarrow> string \<Rightarrow> Admin option" where
  "authenticate_admin d username_in password_in =
     (case find (\<lambda>a. username a = username_in) (admins d) of
        None \<Rightarrow> None
      | Some admin \<Rightarrow> if password_hash admin = password_in then Some admin else None)"

text \<open>create_default_admin has no handler of its own: an exception of the store leaves it
  (main_menu prints a note).\<close>

definition create_default_admin :: "'v db \<Rightarrow> 'v db \<times> outcome" where
  "create_default_admin d =
     (case find (\<lambda>a. username a = ''admin'') (admins d) of
        Some admin \<Rightarrow> (d, Done)
      | None \<Rightarrow>
          (case insert_Admin d ''admin'' ''admin123'' ''System Administrator''
                  ''admin@fitnessclub.com'' of
             (d', Inr k) \<Rightarrow> (d', Done)
           | (d', Inl e) \<Rightarrow> (d', Uncaught e)))"

section \<open>Startup: the view, the trigger and the default administrator\<close>

text \<open>
  create_view_and_trigger sends three statements on one connection, each in a try block of
  its own: CREATE OR REPLACE VIEW MemberHealthSummary, CREATE OR REPLACE FUNCTION
  check_class_capacity, and DROP TRIGGER IF EXISTS with CREATE TRIGGER on "Class". The error
  of the first is printed, the errors of the other two are passed over in silence.

  The view selects \<^verbatim>\<open>FROM Member m\<close> and \<^verbatim>\<open>FROM HealthMetric h\<close>, both names without quotes,
  and the store checks them when it creates the view.
\<close>

definition create_view_statement :: "'v db \<Rightarrow> exn option" where
  "create_view_statement d =
     (if relation_exists d (unquoted ''Member'') \<and> relation_exists d (unquoted ''HealthMetric'')
      then None else Some UndefinedTable)"

text \<open>
  When the first statement succeeds, so do the other two: the function's body is not looked
  at, and the trigger names the table in quotes. When it fails, a connection with
  \<open>autobegin\<close> is left in a failed transaction, the store refuses the other two statements
  and nothing is created; a connection without it goes on and creates the function and the
  trigger.
\<close>

definition create_view_and_trigger :: "'v platform \<Rightarrow> 'v db \<Rightarrow> 'v db" where
  "create_view_and_trigger p d =
     (case create_view_statement d of
        None \<Rightarrow> d\<lparr>summary_view := True, class_trigger := True\<rparr>
      | Some e \<Rightarrow> if autobegin p then d else d\<lparr>class_trigger := True\<rparr>)"

text \<open>Startup (main_menu before its loop): create_tables, which ends with
  create_view_and_trigger, then the default admin. The tables themselves are there.\<close>

definition startup :: "'v platform \<Rightarrow> 'v db \<Rightarrow> 'v db" where
  "startup p d = fst (create_default_admin (create_view_and_trigger p d))"

section \<open>Sequences of operations\<close>

text \<open>
  The menus of main.py call the operations one after the other on the same session. A
  command is an operation with the lines typed at its prompts (and the clock, where the
  operation reads it). The read-only operations leave the store as it is and are not
  listed. After an uncaught exception the process ends; on the next start the store is
  the one left behind, and startup runs again.
\<close>

datatype command =
    Register_member string string string string string
  | Update_member_profile string string string
  | Add_health_metric datetime string string string
  | Book_pt_session string string string
  | Signup_for_class datetime string string
  | Create_trainer string string string
  | Create_room string string
  | Create_class string string string string string
  | Startup

fun run :: "'v platform \<Rightarrow> 'v db \<Rightarrow> command \<Rightarrow> 'v db \<times> outcome" where
  "run p d (Register_member a b c e f) = register_member p d a b c e f"
| "run p d (Update_member_profile a b c) = update_member_profile p d a b c"
| "run p d (Add_health_metric now a b c) = add_health_metric p now d a b c"
| "run p d (Book_pt_session a b c) = book_pt_session p d a b c"
| "run p d (Signup_for_class now a b) = signup_for_class p now d a b"
| "run p d (Create_trainer a b c) = create_trainer p d a b c"
| "run p d (Create_room a b) = create_room p d a b"
| "run p d (Create_class a b c e f) = create_class p d a b c e f"
| "run p d Startup = create_default_admin (create_view_and_trigger p d)"

fun exec :: "'v platform \<Rightarrow> 'v db \<Rightarrow> command list \<Rightarrow> 'v db" where
  "exec p d [] = d"
| "exec p d (c # cs) = exec p (fst (run p d c)) cs"

section \<open>A platform for the examples\<close>

text \<open>
  The closed examples below need the library functions at some strings. This platform
  reads an integer written as a non-empty row of decimal digits, a date written
  YYYY-MM-DD and an instant written YYYY-MM-DD HH:MM, all zero-padded, and rejects every
  other string; a date or instant is the number its digits spell (2025-01-31 is 20250131),
  which keeps their order. It strips the blank characters of ASCII. It agrees with CPython
  on every string used in the examples. Measured values are integers here. Its connections
  are those of SQLAlchemy 2.0, whose \<^verbatim>\<open>Connection.commit\<close> the program calls.
\<close>

definition digit :: "char \<Rightarrow> int option" where
  "digit c = (let n = (of_char c :: int) in if 48 \<le> n \<and> n \<le> 57 then Some (n - 48) else None)"

fun decimal :: "int \<Rightarrow> string \<Rightarrow> int option" where
  "decimal acc [] = Some acc"
| "decimal acc (c # cs) =
     (case digit c of None \<Rightarrow> None | Some v \<Rightarrow> decimal (10 * acc + v) cs)"

definition int0 :: "string \<Rightarrow> int option" where
  "int0 s = (if s = [] then None else decimal 0 s)"

definition days_in_month :: "int \<Rightarrow> int \<Rightarrow> int" where
  "days_in_month y m =
     (if m = 2 then (if y mod 4 = 0 \<and> (y mod 100 \<noteq> 0 \<or> y mod 400 = 0) then 29 else 28)
      else if m = 4 \<or> m = 6 \<or> m = 9 \<or> m = 11 then 30 else 31)"

definition ymd :: "string \<Rightarrow> string \<Rightarrow> string \<Rightarrow> date option" where
  "ymd ys ms ds =
     (case (decimal 0 ys, decimal 0 ms, decimal 0 ds) of
        (Some y, Some m, Some dd) \<Rightarrow>
          if 1 \<le> y \<and> 1 \<le> m \<and> m \<le> 12 \<and> 1 \<le> dd \<and> dd \<le> days_in_month y m
          then Some (y * 10000 + m * 100 + dd) else None
      | _ \<Rightarrow> None)"

definition hm :: "string \<Rightarrow> string \<Rightarrow> int option" where
  "hm hs ms =
     (case (decimal 0 hs, decimal 0 ms) of
        (Some h, Some mi) \<Rightarrow> if h \<le> 23 \<and> mi \<le> 59 then Some (h * 100 + mi) else None
      | _ \<Rightarrow> None)"

fun date0 :: "string \<Rightarrow> date option" where
  "date0 [y1, y2, y3, y4, s1, m1, m2, s2, d1, d2] =
     (if s1 = CHR ''-'' \<and> s2 = CHR ''-'' then ymd [y1, y2, y3, y4] [m1, m2] [d1, d2] else None)"
| "date0 s = None"

fun minute0 :: "string \<Rightarrow> datetime option" where
  "minute0 [y1, y2, y3, y4, s1, m1, m2, s2, d1, d2, s3, h1, h2, s4, n1, n2] =
     (if s1 = CHR ''-'' \<and> s2 = CHR ''-'' \<and> s3 = CHR '' '' \<and> s4 = CHR '':'' then
        (case (ymd [y1, y2, y3, y4] [m1, m2] [d1, d2], hm [h1, h2] [n1, n2]) of
           (Some dt, Some t) \<Rightarrow> Some (dt * 10000 + t)
         | _ \<Rightarrow> None)
      else None)"
| "minute0 s = None"

definition blank :: "char \<Rightarrow> bool" where
  "blank c = (let n = (of_char c :: int) in (9 \<le> n \<and> n \<le> 13) \<or> (28 \<le> n \<and> n \<le> 32))"

definition strip0 :: "string \<Rightarrow> string" where
  "strip0 s = rev (dropWhile blank (rev (dropWhile blank s)))"

definition platform0 :: "int platform" where
  "platform0 = \<lparr>py_int = int0, py_float = int0, strptime_date = date0,
     strptime_minute = minute0, str_strip = strip0,
     numeric_6_2 = (\<lambda>v. if - 10000 < v \<and> v < 10000 then Some v else None),
     autobegin = True\<rparr>"

section \<open>The capacity invariant\<close>

text \<open>
  \<open>capacity_ok\<close> is the invariant the specification states: every class refers to a room,
  holds no more enrollments than its capacity, and its capacity is at most the capacity of
  its room. \<open>enrollment_ok\<close> is its first half alone. \<open>keys_ok\<close> is what the sequence of class
  keys and the foreign key of ClassEnrollment maintain: every class key, and every class
  key an enrollment refers to, was issued by the sequence, and no two classes share a key.
\<close>

definition keys_ok :: "'v db \<Rightarrow> bool" where
  "keys_ok d =
     ((\<forall>c \<in> set (classes d). Class.class_id c < class_seq d) \<and>
      distinct (map Class.class_id (classes d)) \<and>
      (\<forall>e \<in> set (enrollments d). ClassEnrollment.class_id e < class_seq d))"

definition enrollment_ok :: "'v db \<Rightarrow> bool" where
  "enrollment_ok d =
     (\<forall>c \<in> set (classes d). enrollment_count d (Class.class_id c) \<le> Class.capacity c)"

definition capacity_ok :: "'v db \<Rightarrow> bool" where
  "capacity_ok d =
     (\<forall>c \<in> set (classes d).
        \<exists>rc. room_capacity d (Class.room_id c) = Some rc \<and>
             enrollment_count d (Class.class_id c) \<le> Class.capacity c \<and>
             Class.capacity c \<le> rc)"

section \<open>Example stores\<close>

text \<open>
  \<open>club0\<close> is the store after a first session at the console: one room of capacity 10, one
  trainer, two members, and two classes in that room, of capacity 10 and 1. In \<open>club1\<close> the
  first member has then enrolled in the second class, booked a session with the trainer
  and recorded two measurements.
\<close>

definition setup_cmds :: "command list" where
  "setup_cmds =
     [Create_room ''Studio A'' ''10'',
      Create_trainer ''Tia'' ''tia@example.org'' ''Yoga'',
      Register_member ''Ann'' ''ann@example.org'' ''1990-12-31'' [] ''555-0100'',
      Register_member ''Bob'' ''bob@example.org'' [] [] [],
      Create_class ''1'' ''1'' ''Morning Yoga'' ''2025-01-01 10:00'' ''10'',
      Create_class ''1'' ''1'' ''Private Yoga'' ''2025-01-01 12:00'' ''1'']"

definition use_cmds :: "command list" where
  "use_cmds =
     [Signup_for_class 202412310900 ''1'' ''2'',
      Book_pt_session ''1'' ''1'' ''2025-01-02 09:00'',
      Add_health_metric 202501011200 ''1'' ''Weight (kg)'' ''70'',
      Add_health_metric 202501021200 ''1'' ''Pulse'' ''60'']"

definition club0 :: "int db" where
  "club0 = exec platform0 (startup platform0 empty_db) setup_cmds"

definition club1 :: "int db" where
  "club1 = exec platform0 club0 use_cmds"

section \<open>Auxiliary facts about queries\<close>

lemma find_append:
  "find P (xs @ ys) = (case find P xs of None \<Rightarrow> find P ys | Some x \<Rightarrow> Some x)"
  by (induction xs) auto

lemma find_None_notin: "find (\<lambda>x. f x = k) xs = None \<longleftrightarrow> k \<notin> set (map f xs)"
  by (induction xs) auto

lemma create_view_and_trigger_tables:
  "admins (create_view_and_trigger p d) = admins d"
  "admin_seq (create_view_and_trigger p d) = admin_seq d"
  "rooms (create_view_and_trigger p d) = rooms d"
  "classes (create_view_and_trigger p d) = classes d"
  "class_seq (create_view_and_trigger p d) = class_seq d"
  "enrollments (create_view_and_trigger p d) = enrollments d"
  by (simp_all add: create_view_and_trigger_def split: option.splits)

section \<open>The default administrator\<close>

text \<open>
  Claim C9. On a store with no admin named "admin" (and none with the default admin's
  e-mail address, as on a fresh store), startup creates an Admin row with username "admin"
  and the literal password "admin123" in the column password_hash; authenticate_admin with
  "admin" and "admin123" then returns that row, and with any other password it returns
  None.
\<close>

theorem default_admin_login:
  assumes "''admin'' \<notin> set (map username (admins d))"
      and "''admin@fitnessclub.com'' \<notin> set (map Admin.email (admins d))"
  shows "(\<exists>a. authenticate_admin (startup p d) ''admin'' ''admin123'' = Some a
            \<and> a \<in> set (admins (startup p d))
            \<and> username a = ''admin'' \<and> password_hash a = ''admin123'')
         \<and> (\<forall>pw. pw \<noteq> ''admin123'' \<longrightarrow> authenticate_admin (startup p d) ''admin'' pw = None)"
proof -
  have n: "find (\<lambda>a. username a = ''admin'') (admins d) = None"
    using assms(1) by (simp add: find_None_notin)
  have s: "admins (startup p d) = admins d @
      [\<lparr>admin_id = admin_seq d, username = ''admin'', password_hash = ''admin123'',
        Admin.name = ''System Administrator'', Admin.email = ''admin@fitnessclub.com''\<rparr>]"
    using assms n
    by (simp add: startup_def create_default_admin_def insert_Admin_def varchar_def Let_def
          create_view_and_trigger_tables)
  show ?thesis
    by (simp add: authenticate_admin_def s find_append n)
qed

theorem default_admin_login_witness:
  "(\<exists>a. authenticate_admin (startup platform0 (empty_db :: int db)) ''admin'' ''admin123'' = Some a
            \<and> a \<in> set (admins (startup platform0 (empty_db :: int db)))
            \<and> username a = ''admin'' \<and> password_hash a = ''admin123'')
   \<and> authenticate_admin (startup platform0 (empty_db :: int db)) ''admin'' ''admin1234'' = None"
  using default_admin_login [of "empty_db :: int db" platform0] by (simp add: empty_db_def)

section \<open>Evaluating the examples\<close>

lemmas platform0_defs =
  platform0_def int0_def digit_def ymd_def hm_def days_in_month_def blank_def strip0_def

lemmas store_defs =
  insert_Member_def insert_Trainer_def insert_Admin_def insert_HealthMetric_def
  insert_Room_def insert_Class_def insert_PTSession_def insert_ClassEnrollment_def
  update_Member_def check_class_capacity_def room_capacity_def enrollment_count_def
  or_None_def int4_def varchar_def varchar_opt_def empty_db_def Let_def

lemmas operation_defs =
  register_member_def update_member_profile_def add_health_metric_def book_pt_session_def
  signup_for_class_def create_trainer_def create_room_def create_class_def
  create_default_admin_def startup_def create_view_and_trigger_def create_view_statement_def
  relation_exists_def unquoted_def fold_char_def table_names_def

lemma exec_append: "exec p d (cs @ cs') = exec p (exec p d cs) cs'"
  by (induction cs arbitrary: d) simp_all

lemma club0_eq:
  "club0 =
     \<lparr>members =
        [\<lparr>Member.member_id = 1, Member.name = ''Ann'', Member.email = ''ann@example.org'',
          date_of_birth = Some 19901231, gender = None, phone = Some ''555-0100''\<rparr>,
         \<lparr>Member.member_id = 2, Member.name = ''Bob'', Member.email = ''bob@example.org'',
          date_of_birth = None, gender = None, phone = None\<rparr>],
      trainers =
        [\<lparr>Trainer.trainer_id = 1, Trainer.name = ''Tia'', Trainer.email = ''tia@example.org'',
          specialization = Some ''Yoga''\<rparr>],
      admins =
        [\<lparr>admin_id = 1, username = ''admin'', password_hash = ''admin123'',
          Admin.name = ''System Administrator'', Admin.email = ''admin@fitnessclub.com''\<rparr>],
      health_metrics = [],
      rooms = [\<lparr>Room.room_id = 1, Room.name = ''Studio A'', Room.capacity = 10\<rparr>],
      classes =
        [\<lparr>Class.class_id = 1, Class.trainer_id = 1, Class.room_id = 1,
          class_name = ''Morning Yoga'', class_time = 202501011000, Class.capacity = 10\<rparr>,
         \<lparr>Class.class_id = 2, Class.trainer_id = 1, Class.room_id = 1,
          class_name = ''Private Yoga'', class_time = 202501011200, Class.capacity = 1\<rparr>],
      pt_sessions = [],
      enrollments = [],
      member_seq = 3, trainer_seq = 2, admin_seq = 2, metric_seq = 1, room_seq = 2,
      class_seq = 3, session_seq = 1, enrollment_seq = 1,
      summary_view = False, class_trigger = False\<rparr>"
  by (simp add: club0_def setup_cmds_def operation_defs store_defs platform0_defs)

lemma club1_eq:
  "club1 =
     club0\<lparr>health_metrics :=
        [\<lparr>metric_id = 1, HealthMetric.member_id = 1, metric_type = ''Weight (kg)'',
          metric_value = 70, timestamp = 202501011200\<rparr>,
         \<lparr>metric_id = 2, HealthMetric.member_id = 1, metric_type = ''Pulse'',
          metric_value = 60, timestamp = 202501021200\<rparr>],
      pt_sessions :=
        [\<lparr>session_id = 1, PTSession.member_id = 1, PTSession.trainer_id = 1,
          session_time = 202501020900, status = ''scheduled''\<rparr>],
      enrollments :=
        [\<lparr>enrollment_id = 1, ClassEnrollment.member_id = 1, ClassEnrollment.class_id = 2,
          enrollment_date = 202412310900\<rparr>],
      metric_seq := 3, session_seq := 2, enrollment_seq := 2\<rparr>"
  by (simp add: club1_def use_cmds_def club0_eq operation_defs store_defs platform0_defs)

section \<open>The view and the trigger in the stores the program reaches\<close>

lemma no_lower_case_relation:
  "\<not> relation_exists d (unquoted ''Room'')"
  "\<not> relation_exists d (unquoted ''Member'')"
  "\<not> relation_exists d (unquoted ''HealthMetric'')"
  by (simp_all add: relation_exists_def unquoted_def fold_char_def table_names_def)

lemma check_class_capacity_raises:
  "check_class_capacity d rid cap = Some UndefinedTable"
  by (simp add: check_class_capacity_def no_lower_case_relation)

lemma create_view_statement_fails: "create_view_statement d = Some UndefinedTable"
  by (simp add: create_view_statement_def no_lower_case_relation)

lemma create_view_and_trigger_eq:
  "create_view_and_trigger p d = (if autobegin p then d else d\<lparr>class_trigger := True\<rparr>)"
  by (simp add: create_view_and_trigger_def create_view_statement_fails)

lemma run_summary_view: "summary_view (fst (run p d c)) = summary_view d"
  by (cases c)
     (simp_all add: operation_defs store_defs create_view_statement_fails no_lower_case_relation
        split: option.splits)

lemma run_class_trigger:
  "class_trigger (fst (run p d c)) = (class_trigger d \<or> (c = Startup \<and> \<not> autobegin p))"
  by (cases c)
     (simp_all add: operation_defs store_defs create_view_statement_fails no_lower_case_relation
        split: option.splits)

lemma exec_summary_view: "summary_view (exec p d cs) = summary_view d"
  by (induction cs arbitrary: d) (simp_all add: run_summary_view)

lemma exec_class_trigger:
  "autobegin p \<Longrightarrow> class_trigger (exec p d cs) = class_trigger d"
  by (induction cs arbitrary: d) (simp_all add: run_class_trigger)

lemma startup_flags:
  "summary_view (startup p d) = summary_view d"
  "class_trigger (startup p d) = (class_trigger d \<or> \<not> autobegin p)"
  by (simp_all add: startup_def create_view_and_trigger_eq create_default_admin_def
        insert_Admin_def Let_def split: option.splits)

section \<open>Enrollments stay within the capacity of the class\<close>

subsection \<open>Changes of the store that keep the bound\<close>

lemma room_capacity_cong:
  "rooms d' = rooms d \<Longrightarrow> room_capacity d' rid = room_capacity d rid"
  by (simp add: room_capacity_def)

lemma enrollment_count_cong:
  "enrollments d' = enrollments d \<Longrightarrow> enrollment_count d' cid = enrollment_count d cid"
  by (simp add: enrollment_count_def)

lemma keys_ok_frame:
  assumes "keys_ok d" and "classes d' = classes d" and "enrollments d' = enrollments d"
      and "class_seq d \<le> class_seq d'"
  shows "keys_ok d'"
  using assms by (auto simp: keys_ok_def)

lemma enrollment_ok_frame:
  assumes "enrollment_ok d" and "classes d' = classes d" and "enrollments d' = enrollments d"
  shows "enrollment_ok d'"
  using assms by (simp add: enrollment_ok_def enrollment_count_def)

lemma no_enrollment_of_new_class:
  assumes "keys_ok d"
  shows "enrollment_count d (class_seq d) = 0"
proof -
  have "\<forall>e \<in> set (enrollments d). ClassEnrollment.class_id e \<noteq> class_seq d"
    using assms by (auto simp: keys_ok_def)
  then have "filter (\<lambda>e. ClassEnrollment.class_id e = class_seq d) (enrollments d) = []"
    by (simp add: filter_empty_conv)
  then show ?thesis by (simp add: enrollment_count_def)
qed

lemma keys_ok_add_class:
  assumes "keys_ok d"
      and "classes d' = classes d @ [c]" and "Class.class_id c = class_seq d"
      and "class_seq d' = class_seq d + 1" and "enrollments d' = enrollments d"
  shows "keys_ok d'"
  using assms by (auto simp: keys_ok_def)

lemma enrollment_ok_add_class:
  assumes "keys_ok d" and "enrollment_ok d"
      and "classes d' = classes d @ [c]" and "Class.class_id c = class_seq d"
      and "enrollments d' = enrollments d" and "0 < Class.capacity c"
  shows "enrollment_ok d'"
  unfolding enrollment_ok_def
proof
  fix x assume "x \<in> set (classes d')"
  then consider "x \<in> set (classes d)" | "x = c" using assms(3) by auto
  then show "enrollment_count d' (Class.class_id x) \<le> Class.capacity x"
  proof cases
    case 1
    then have "enrollment_count d (Class.class_id x) \<le> Class.capacity x"
      using assms(2) unfolding enrollment_ok_def by blast
    then show ?thesis using enrollment_count_cong [OF assms(5)] by simp
  next
    case 2
    have "enrollment_count d' (Class.class_id c) = 0"
      using no_enrollment_of_new_class [OF assms(1)] assms(4,5)
      by (simp add: enrollment_count_def)
    then show ?thesis using 2 assms(6) by simp
  qed
qed

lemma find_class_unique:
  assumes "distinct (map Class.class_id cs)" and "find (\<lambda>c. Class.class_id c = cid) cs = Some c"
      and "x \<in> set cs" and "Class.class_id x = cid"
  shows "x = c"
  using assms
proof (induction cs)
  case Nil then show ?case by simp
next
  case (Cons a cs)
  then show ?case by (auto split: if_splits simp: find_Some_iff image_iff)
qed

lemma find_class_in:
  "find (\<lambda>c. Class.class_id c = cid) cs = Some c \<Longrightarrow> c \<in> set cs \<and> Class.class_id c = cid"
  by (induction cs) (auto split: if_splits)

lemma keys_ok_enroll:
  assumes "keys_ok d" and "classes d' = classes d" and "class_seq d' = class_seq d"
      and "enrollments d' = enrollments d @ [e]"
      and "find (\<lambda>c. Class.class_id c = ClassEnrollment.class_id e) (classes d) = Some c"
  shows "keys_ok d'"
  using assms(1-4) find_class_in [OF assms(5)] by (auto simp: keys_ok_def)

lemma enrollment_ok_enroll:
  assumes "keys_ok d" and "enrollment_ok d"
      and "classes d' = classes d"
      and "enrollments d' = enrollments d @ [e]"
      and "find (\<lambda>c. Class.class_id c = ClassEnrollment.class_id e) (classes d) = Some c"
      and "enrollment_count d (ClassEnrollment.class_id e) < Class.capacity c"
  shows "enrollment_ok d'"
  unfolding enrollment_ok_def
proof
  fix x assume "x \<in> set (classes d')"
  then have x: "x \<in> set (classes d)" using assms(3) by simp
  then have r: "enrollment_count d (Class.class_id x) \<le> Class.capacity x"
    using assms(2) unfolding enrollment_ok_def by blast
  show "enrollment_count d' (Class.class_id x) \<le> Class.capacity x"
  proof (cases "Class.class_id x = ClassEnrollment.class_id e")
    case True
    have "distinct (map Class.class_id (classes d))" using assms(1) by (simp add: keys_ok_def)
    then have "x = c" using assms(5) x True by (rule find_class_unique)
    then show ?thesis using assms(4,6) True by (simp add: enrollment_count_def)
  next
    case False
    then show ?thesis using r assms(4) by (simp add: enrollment_count_def)
  qed
qed

subsection \<open>What the inserts change\<close>

lemma insert_Class_Inr:
  assumes "insert_Class d tid rid nm tm cap = (d', Inr k)"
  shows "d' = d\<lparr>class_seq := class_seq d + 1,
                classes := classes d @
                  [\<lparr>Class.class_id = class_seq d, Class.trainer_id = tid, Class.room_id = rid,
                    class_name = nm, class_time = tm, Class.capacity = cap\<rparr>]\<rparr>"
    and "k = class_seq d" and "0 < cap"
  using assms
  by (auto simp: insert_Class_def Let_def check_class_capacity_raises
        split: if_splits option.splits)

lemma insert_Class_Inl:
  "insert_Class d tid rid nm tm cap = (d', Inl e) \<Longrightarrow>
     d' = d \<or> d' = d\<lparr>class_seq := class_seq d + 1\<rparr>"
  by (auto simp: insert_Class_def Let_def split: if_splits option.splits)

lemma insert_ClassEnrollment_Inr:
  "insert_ClassEnrollment d mid cid dt = (d', Inr k) \<Longrightarrow>
     d' = d\<lparr>enrollment_seq := enrollment_seq d + 1,
           enrollments := enrollments d @
             [\<lparr>enrollment_id = enrollment_seq d, ClassEnrollment.member_id = mid,
               ClassEnrollment.class_id = cid, enrollment_date = dt\<rparr>]\<rparr>"
  by (auto simp: insert_ClassEnrollment_def Let_def split: if_splits)

lemma insert_ClassEnrollment_Inl:
  "insert_ClassEnrollment d mid cid dt = (d', Inl e) \<Longrightarrow>
     d' = d \<or> d' = d\<lparr>enrollment_seq := enrollment_seq d + 1\<rparr>"
  by (auto simp: insert_ClassEnrollment_def Let_def split: if_splits)

subsection \<open>Every operation keeps the bound\<close>

lemma register_member_frame:
  "classes (fst (register_member p d a b c e f)) = classes d \<and>
   enrollments (fst (register_member p d a b c e f)) = enrollments d \<and>
   class_seq (fst (register_member p d a b c e f)) = class_seq d \<and>
   rooms (fst (register_member p d a b c e f)) = rooms d"
  by (simp add: register_member_def insert_Member_def Let_def)

lemma update_member_profile_frame:
  "classes (fst (update_member_profile p d a b c)) = classes d \<and>
   enrollments (fst (update_member_profile p d a b c)) = enrollments d \<and>
   class_seq (fst (update_member_profile p d a b c)) = class_seq d \<and>
   rooms (fst (update_member_profile p d a b c)) = rooms d"
  by (simp add: update_member_profile_def update_Member_def Let_def split: option.splits)

lemma add_health_metric_frame:
  "classes (fst (add_health_metric p now d a b c)) = classes d \<and>
   enrollments (fst (add_health_metric p now d a b c)) = enrollments d \<and>
   class_seq (fst (add_health_metric p now d a b c)) = class_seq d \<and>
   rooms (fst (add_health_metric p now d a b c)) = rooms d"
  by (simp add: add_health_metric_def insert_HealthMetric_def Let_def split: option.splits)

lemma book_pt_session_frame:
  "classes (fst (book_pt_session p d a b c)) = classes d \<and>
   enrollments (fst (book_pt_session p d a b c)) = enrollments d \<and>
   class_seq (fst (book_pt_session p d a b c)) = class_seq d \<and>
   rooms (fst (book_pt_session p d a b c)) = rooms d"
  by (simp add: book_pt_session_def insert_PTSession_def Let_def split: option.splits)

lemma create_trainer_frame:
  "classes (fst (create_trainer p d a b c)) = classes d \<and>
   enrollments (fst (create_trainer p d a b c)) = enrollments d \<and>
   class_seq (fst (create_trainer p d a b c)) = class_seq d \<and>
   rooms (fst (create_trainer p d a b c)) = rooms d"
  by (simp add: create_trainer_def insert_Trainer_def Let_def)

lemma create_default_admin_frame:
  "classes (fst (create_default_admin d)) = classes d \<and>
   enrollments (fst (create_default_admin d)) = enrollments d \<and>
   class_seq (fst (create_default_admin d)) = class_seq d \<and>
   rooms (fst (create_default_admin d)) = rooms d"
  by (simp add: create_default_admin_def insert_Admin_def Let_def split: option.splits)

lemma create_room_frame:
  "classes (fst (create_room p d a b)) = classes d \<and>
   enrollments (fst (create_room p d a b)) = enrollments d \<and>
   class_seq (fst (create_room p d a b)) = class_seq d"
  by (simp add: create_room_def insert_Room_def Let_def split: option.splits)

lemma unchanged_keeps:
  assumes "keys_ok d \<and> enrollment_ok d"
      and "classes d' = classes d \<and> enrollments d' = enrollments d \<and>
           class_seq d' = class_seq d \<and> rooms d' = rooms d"
  shows "keys_ok d' \<and> enrollment_ok d'"
  using assms keys_ok_frame [of d d'] enrollment_ok_frame [of d d'] by simp

lemma create_room_keeps:
  assumes "keys_ok d \<and> enrollment_ok d"
  shows "keys_ok (fst (create_room p d a b)) \<and> enrollment_ok (fst (create_room p d a b))"
  using assms create_room_frame [of p d a b]
    keys_ok_frame [of d "fst (create_room p d a b)"]
    enrollment_ok_frame [of d "fst (create_room p d a b)"]
  by simp

lemma startup_keeps:
  assumes "keys_ok d \<and> enrollment_ok d"
  shows "keys_ok (fst (create_default_admin (create_view_and_trigger p d))) \<and>
         enrollment_ok (fst (create_default_admin (create_view_and_trigger p d)))"
proof -
  have "keys_ok (create_view_and_trigger p d) \<and> enrollment_ok (create_view_and_trigger p d)"
    using assms keys_ok_frame [of d "create_view_and_trigger p d"]
      enrollment_ok_frame [of d "create_view_and_trigger p d"]
    by (simp add: create_view_and_trigger_tables)
  then show ?thesis using unchanged_keeps [OF _ create_default_admin_frame] by blast
qed

lemma bump_keeps:
  assumes "keys_ok d \<and> enrollment_ok d"
  shows "keys_ok (d\<lparr>class_seq := class_seq d + 1\<rparr>) \<and>
         enrollment_ok (d\<lparr>class_seq := class_seq d + 1\<rparr>)"
  using assms keys_ok_frame [of d "d\<lparr>class_seq := class_seq d + 1\<rparr>"]
    enrollment_ok_frame [of d "d\<lparr>class_seq := class_seq d + 1\<rparr>"]
  by simp

lemma insert_Class_keeps:
  assumes "keys_ok d \<and> enrollment_ok d"
  shows "keys_ok (fst (insert_Class d tid rid nm tm cap)) \<and>
         enrollment_ok (fst (insert_Class d tid rid nm tm cap))"
proof (cases "insert_Class d tid rid nm tm cap")
  case (Pair d' r)
  show ?thesis
  proof (cases r)
    case (Inl e)
    then have "d' = d \<or> d' = d\<lparr>class_seq := class_seq d + 1\<rparr>"
      using Pair insert_Class_Inl by blast
    then show ?thesis using Pair assms bump_keeps [OF assms] by auto
  next
    case (Inr k)
    let ?c = "\<lparr>Class.class_id = class_seq d, Class.trainer_id = tid, Class.room_id = rid,
               class_name = nm, class_time = tm, Class.capacity = cap\<rparr>"
    have eq: "insert_Class d tid rid nm tm cap = (d', Inr k)" using Pair Inr by simp
    have d': "d' = d\<lparr>class_seq := class_seq d + 1, classes := classes d @ [?c]\<rparr>"
      using insert_Class_Inr(1) [OF eq] .
    have pos: "0 < cap" using insert_Class_Inr(3) [OF eq] .
    have k: "keys_ok d'"
      using assms d' by (intro keys_ok_add_class [of d d' ?c]) simp_all
    have c: "enrollment_ok d'"
      using assms d' pos by (intro enrollment_ok_add_class [of d d' ?c]) simp_all
    show ?thesis using Pair k c by simp
  qed
qed

lemma fst_outcome:
  "fst (case x of (d', Inr k) \<Rightarrow> (d', f k) | (d', Inl e) \<Rightarrow> (d', g e)) = fst x"
  by (simp split: prod.splits sum.splits)

lemma create_class_keeps:
  assumes "keys_ok d \<and> enrollment_ok d"
  shows "keys_ok (fst (create_class p d a b c e f)) \<and>
         enrollment_ok (fst (create_class p d a b c e f))"
  using assms
  by (simp add: create_class_def fst_outcome insert_Class_keeps split: option.splits)

lemma signup_for_class_changes:
  assumes "signup_for_class p now d a b = (d', r)"
  shows "classes d' = classes d \<and> rooms d' = rooms d \<and> class_seq d' = class_seq d \<and>
         (enrollments d' = enrollments d \<or>
          (\<exists>e c. enrollments d' = enrollments d @ [e] \<and>
                 find (\<lambda>c. Class.class_id c = ClassEnrollment.class_id e) (classes d) = Some c \<and>
                 enrollment_count d (ClassEnrollment.class_id e) < Class.capacity c))"
  using assms
  by (auto simp: signup_for_class_def Let_def
        split: option.splits if_splits prod.splits sum.splits
        dest!: insert_ClassEnrollment_Inr insert_ClassEnrollment_Inl)

lemma signup_for_class_keeps:
  assumes "keys_ok d \<and> enrollment_ok d"
  shows "keys_ok (fst (signup_for_class p now d a b)) \<and>
         enrollment_ok (fst (signup_for_class p now d a b))"
proof (cases "signup_for_class p now d a b")
  case (Pair d' r)
  note ch = signup_for_class_changes [OF Pair]
  consider "enrollments d' = enrollments d"
    | e c where "enrollments d' = enrollments d @ [e]"
        "find (\<lambda>c. Class.class_id c = ClassEnrollment.class_id e) (classes d) = Some c"
        "enrollment_count d (ClassEnrollment.class_id e) < Class.capacity c"
    using ch by blast
  then have "keys_ok d' \<and> enrollment_ok d'"
  proof cases
    case 1
    then show ?thesis using unchanged_keeps [OF assms, of d'] ch by simp
  next
    case 2
    have "keys_ok d'"
      using assms ch 2 by (intro keys_ok_enroll [of d d' e c]) simp_all
    moreover have "enrollment_ok d'"
      using assms ch 2 by (intro enrollment_ok_enroll [of d d' e c]) simp_all
    ultimately show ?thesis by simp
  qed
  then show ?thesis using Pair by simp
qed

lemma run_keeps:
  assumes "keys_ok d \<and> enrollment_ok d"
  shows "keys_ok (fst (run p d c)) \<and> enrollment_ok (fst (run p d c))"
proof (cases c)
  case (Register_member a b c e f)
  then show ?thesis using unchanged_keeps [OF assms register_member_frame] by simp
next
  case (Update_member_profile a b c)
  then show ?thesis using unchanged_keeps [OF assms update_member_profile_frame] by simp
next
  case (Add_health_metric now a b c)
  then show ?thesis using unchanged_keeps [OF assms add_health_metric_frame] by simp
next
  case (Book_pt_session a b c)
  then show ?thesis using unchanged_keeps [OF assms book_pt_session_frame] by simp
next
  case (Signup_for_class now a b)
  then show ?thesis using signup_for_class_keeps [OF assms] by simp
next
  case (Create_trainer a b c)
  then show ?thesis using unchanged_keeps [OF assms create_trainer_frame] by simp
next
  case (Create_room a b)
  then show ?thesis using create_room_keeps [OF assms] by simp
next
  case (Create_class a b c e f)
  then show ?thesis using create_class_keeps [OF assms] by simp
next
  case Startup
  then show ?thesis using startup_keeps [OF assms] by simp
qed

lemma exec_keeps:
  "keys_ok d \<and> enrollment_ok d \<Longrightarrow> keys_ok (exec p d cs) \<and> enrollment_ok (exec p d cs)"
proof (induction cs arbitrary: d)
  case Nil
  then show ?case by simp
next
  case (Cons c cs)
  have "keys_ok (fst (run p d c)) \<and> enrollment_ok (fst (run p d c))"
    using Cons.prems by (rule run_keeps)
  then show ?case using Cons.IH by simp
qed

lemma empty_db_ok: "keys_ok (empty_db :: 'v db) \<and> enrollment_ok (empty_db :: 'v db)"
  by (simp add: keys_ok_def enrollment_ok_def empty_db_def)

text \<open>
  The first half of the invariant holds in every store the program reaches: signup_for_class
  adds an enrollment only after it has found the count of the class below its capacity, and
  a new class has a positive capacity and no enrollment.
\<close>

lemma enrollment_bound_kept:
  "enrollment_ok (exec p (startup p (empty_db :: 'v db)) cmds)"
proof -
  have "keys_ok (startup p (empty_db :: 'v db)) \<and> enrollment_ok (startup p (empty_db :: 'v db))"
    using startup_keeps [OF empty_db_ok] by (simp add: startup_def)
  then show ?thesis using exec_keeps by blast
qed

section \<open>create_class and the capacity of the room\<close>

lemma room_capacity_Some_room:
  "room_capacity d rid = Some rc \<Longrightarrow> rid \<in> set (map Room.room_id (rooms d))"
  using find_None_notin [of Room.room_id rid "rooms d"] by (auto simp: room_capacity_def)

lemma create_class_inserted:
  assumes "py_int p trainer_id_in = Some tid" and "py_int p room_id_in = Some rid"
      and "py_int p capacity_in = Some cap" and "strptime_minute p class_time_in = Some tm"
      and "int4 tid" and "int4 rid" and "int4 cap" and "varchar 100 class_name_in"
      and "0 < cap"
      and "(rid, tm) \<notin> set (map (\<lambda>c. (Class.room_id c, class_time c)) (classes d))"
      and "tid \<in> set (map Trainer.trainer_id (trainers d))"
      and "rid \<in> set (map Room.room_id (rooms d))"
      and "\<not> class_trigger d"
  shows "create_class p d trainer_id_in room_id_in class_name_in class_time_in capacity_in
           = (d\<lparr>class_seq := class_seq d + 1,
                classes := classes d @
                  [\<lparr>Class.class_id = class_seq d, Class.trainer_id = tid, Class.room_id = rid,
                    class_name = class_name_in, class_time = tm, Class.capacity = cap\<rparr>]\<rparr>,
              Done)"
  using assms by (simp add: create_class_def insert_Class_def Let_def)

lemma create_class_trigger_fails:
  assumes "py_int p trainer_id_in = Some tid" and "py_int p room_id_in = Some rid"
      and "py_int p capacity_in = Some cap" and "strptime_minute p class_time_in = Some tm"
      and "int4 tid" and "int4 rid" and "int4 cap" and "varchar 100 class_name_in"
      and "class_trigger d"
  shows "create_class p d trainer_id_in room_id_in class_name_in class_time_in capacity_in
           = (d\<lparr>class_seq := class_seq d + 1\<rparr>, Failed UndefinedTable)"
  using assms
  by (simp add: create_class_def insert_Class_def Let_def check_class_capacity_raises)

lemma create_class_outcome:
  "snd (create_class p d a b c e f) \<noteq> CapacityExceedsRoom \<and>
   snd (create_class p d a b c e f) \<noteq> Failed RaiseException"
  by (simp add: create_class_def insert_Class_def Let_def check_class_capacity_raises
        split: option.splits)

text \<open>
  Claim C1 fails on the code. create_class compares nothing itself, and the trigger that
  create_view_and_trigger means to install does not do it either. A class whose capacity is
  greater than the capacity of its room, with values that parse and fit their columns, a
  trainer of the store and a free time in the room, is created like any other class in a
  store without the trigger; in a store with the trigger the insert fails as it does for
  every class, because the trigger function selects from a relation the store does not
  have. No input makes create_class end with CapacityExceedsRoom, nor with the exception
  the trigger function is written to raise.
\<close>

theorem create_class_stores_oversized:
  assumes "py_int p trainer_id_in = Some tid" and "py_int p room_id_in = Some rid"
      and "py_int p capacity_in = Some cap" and "strptime_minute p class_time_in = Some tm"
      and "int4 tid" and "int4 rid" and "int4 cap" and "varchar 100 class_name_in"
      and "(rid, tm) \<notin> set (map (\<lambda>c. (Class.room_id c, class_time c)) (classes d))"
      and "tid \<in> set (map Trainer.trainer_id (trainers d))"
      and "room_capacity d rid = Some rc" and "rc < cap" and "0 < cap"
  shows "create_class p d trainer_id_in room_id_in class_name_in class_time_in capacity_in
           = (if class_trigger d
              then (d\<lparr>class_seq := class_seq d + 1\<rparr>, Failed UndefinedTable)
              else (d\<lparr>class_seq := class_seq d + 1,
                      classes := classes d @
                        [\<lparr>Class.class_id = class_seq d, Class.trainer_id = tid,
                          Class.room_id = rid, class_name = class_name_in, class_time = tm,
                          Class.capacity = cap\<rparr>]\<rparr>,
                    Done))
         \<and> (\<forall>a b c e f. snd (create_class p d a b c e f) \<noteq> CapacityExceedsRoom
                       \<and> snd (create_class p d a b c e f) \<noteq> Failed RaiseException)"
proof (cases "class_trigger d")
  case True
  then show ?thesis
    using create_class_trigger_fails [OF assms(1-8) True] create_class_outcome [of p d] by simp
next
  case False
  have "rid \<in> set (map Room.room_id (rooms d))"
    using assms(11) by (rule room_capacity_Some_room)
  then show ?thesis
    using create_class_inserted [OF assms(1-8) assms(13) assms(9,10) _ False] False
      create_class_outcome [of p d]
    by simp
qed

theorem create_class_stores_oversized_witness:
  "room_capacity club0 1 = Some 10
   \<and> create_class platform0 club0 ''1'' ''1'' ''Evening Yoga'' ''2025-01-01 18:00'' ''11''
       = (club0\<lparr>class_seq := 4,
                classes := classes club0 @
                  [\<lparr>Class.class_id = 3, Class.trainer_id = 1, Class.room_id = 1,
                    class_name = ''Evening Yoga'', class_time = 202501011800,
                    Class.capacity = 11\<rparr>]\<rparr>,
          Done)"
  using create_class_stores_oversized [where p = platform0 and d = club0
      and trainer_id_in = "''1''" and tid = 1 and room_id_in = "''1''" and rid = 1
      and capacity_in = "''11''" and cap = 11 and class_time_in = "''2025-01-01 18:00''"
      and tm = 202501011800 and class_name_in = "''Evening Yoga''" and rc = 10]
  by (simp add: club0_eq room_capacity_def int4_def varchar_def platform0_defs)

section \<open>The capacity invariant does not hold\<close>

text \<open>
  Claim C3 fails on the code. On a platform whose connections begin a transaction by
  themselves, no store reached from the empty store holds the trigger; creating, in such a
  store, a class whose capacity is greater than the capacity of its room (values that
  parse and fit, a trainer of the store, a free time in the room) leads to a store in
  which the invariant is false. Nothing compares the two capacities, at an insert or at
  any other time.
\<close>

theorem capacity_invariant_violated:
  fixes p :: "'v platform"
  assumes "autobegin p"
      and "d = exec p (startup p empty_db) cmds"
      and "py_int p trainer_id_in = Some tid" and "py_int p room_id_in = Some rid"
      and "py_int p capacity_in = Some cap" and "strptime_minute p class_time_in = Some tm"
      and "int4 tid" and "int4 rid" and "int4 cap" and "varchar 100 class_name_in"
      and "(rid, tm) \<notin> set (map (\<lambda>c. (Class.room_id c, class_time c)) (classes d))"
      and "tid \<in> set (map Trainer.trainer_id (trainers d))"
      and "room_capacity d rid = Some rc" and "rc < cap" and "0 < cap"
  shows "\<not> capacity_ok (exec p (startup p empty_db)
             (cmds @ [Create_class trainer_id_in room_id_in class_name_in class_time_in
                        capacity_in]))"
proof -
  let ?c = "\<lparr>Class.class_id = class_seq d, Class.trainer_id = tid, Class.room_id = rid,
             class_name = class_name_in, class_time = tm, Class.capacity = cap\<rparr>"
  let ?d' = "d\<lparr>class_seq := class_seq d + 1, classes := classes d @ [?c]\<rparr>"
  have "\<not> class_trigger (startup p (empty_db :: 'v db))"
    using assms(1) by (simp add: startup_flags empty_db_def)
  then have nt: "\<not> class_trigger d"
    using assms(1,2) by (simp add: exec_class_trigger)
  have room: "rid \<in> set (map Room.room_id (rooms d))"
    using assms(13) by (rule room_capacity_Some_room)
  have "create_class p d trainer_id_in room_id_in class_name_in class_time_in capacity_in
          = (?d', Done)"
    using create_class_inserted [OF assms(3-10) assms(15) assms(11,12) room nt] .
  then have e: "exec p (startup p empty_db)
             (cmds @ [Create_class trainer_id_in room_id_in class_name_in class_time_in
                        capacity_in]) = ?d'"
    using assms(2) by (simp add: exec_append)
  have "?c \<in> set (classes ?d')" by simp
  moreover have "room_capacity ?d' (Class.room_id ?c) = Some rc"
    using assms(13) by (simp add: room_capacity_def)
  moreover have "\<not> Class.capacity ?c \<le> rc" using assms(14) by simp
  ultimately have "\<not> capacity_ok ?d'"
    unfolding capacity_ok_def by (metis option.inject)
  then show ?thesis using e by simp
qed

theorem capacity_invariant_violated_witness:
  "room_capacity club0 1 = Some 10
   \<and> classes (exec platform0 (startup platform0 empty_db)
        (setup_cmds @ [Create_class ''1'' ''1'' ''Evening Yoga'' ''2025-01-01 18:00'' ''11'']))
      = classes club0 @
          [\<lparr>Class.class_id = 3, Class.trainer_id = 1, Class.room_id = 1,
            class_name = ''Evening Yoga'', class_time = 202501011800, Class.capacity = 11\<rparr>]
   \<and> \<not> capacity_ok (exec platform0 (startup platform0 empty_db)
        (setup_cmds @ [Create_class ''1'' ''1'' ''Evening Yoga'' ''2025-01-01 18:00'' ''11'']))"
proof -
  have a: "autobegin platform0" by (simp add: platform0_def)
  have d: "club0 = exec platform0 (startup platform0 empty_db) setup_cmds"
    by (rule club0_def)
  have r: "room_capacity club0 1 = Some 10" by (simp add: club0_eq room_capacity_def)
  have v: "\<not> capacity_ok (exec platform0 (startup platform0 empty_db)
        (setup_cmds @ [Create_class ''1'' ''1'' ''Evening Yoga'' ''2025-01-01 18:00'' ''11'']))"
    using capacity_invariant_violated [OF a d, where trainer_id_in = "''1''" and tid = 1
        and room_id_in = "''1''" and rid = 1 and capacity_in = "''11''" and cap = 11
        and class_time_in = "''2025-01-01 18:00''" and tm = 202501011800
        and class_name_in = "''Evening Yoga''" and rc = 10]
    by (simp add: club0_eq room_capacity_def int4_def varchar_def platform0_defs)
  have c: "classes (exec platform0 (startup platform0 empty_db)
        (setup_cmds @ [Create_class ''1'' ''1'' ''Evening Yoga'' ''2025-01-01 18:00'' ''11'']))
      = classes club0 @
          [\<lparr>Class.class_id = 3, Class.trainer_id = 1, Class.room_id = 1,
            class_name = ''Evening Yoga'', class_time = 202501011800, Class.capacity = 11\<rparr>]"
    by (simp add: exec_append club0_def [symmetric])
       (simp add: club0_eq operation_defs store_defs platform0_defs)
  show ?thesis using r v c by simp
qed

section \<open>Lines that are not numbers\<close>

text \<open>
  Claim C2 fails on the code. update_member_profile, add_health_metric, create_room and
  create_class convert a line with \<^verbatim>\<open>int\<close> (add_health_metric also with \<^verbatim>\<open>float\<close>) outside
  every handler: on a line that is not a number the ValueError leaves the operation, and
  no menu handles it. book_pt_session and signup_for_class convert inside a handler and
  return to the menu. The store is the same in both cases.
\<close>

theorem unguarded_conversion:
  assumes "py_int p s = None"
  shows "update_member_profile p d s a b = (d, Uncaught ValueError)
       \<and> add_health_metric p now d s a b = (d, Uncaught ValueError)
       \<and> create_room p d a s = (d, Uncaught ValueError)
       \<and> create_class p d s a b c e = (d, Uncaught ValueError)
       \<and> create_class p d a s b c e = (d, Uncaught ValueError)
       \<and> create_class p d a b c e s = (d, Uncaught ValueError)
       \<and> (\<forall>t. py_float p t = None
              \<longrightarrow> add_health_metric p now d a b t = (d, Uncaught ValueError))
       \<and> book_pt_session p d s a b = (d, Invalid)
       \<and> signup_for_class p now d s a = (d, Invalid)"
  using assms
  by (simp add: update_member_profile_def add_health_metric_def create_room_def
        create_class_def book_pt_session_def signup_for_class_def split: option.splits)

theorem unguarded_conversion_witness:
  "update_member_profile platform0 club0 ''abc'' ''Anna'' [] = (club0, Uncaught ValueError)
   \<and> add_health_metric platform0 202501011200 club0 ''abc'' ''Anna'' [] = (club0, Uncaught ValueError)
   \<and> create_room platform0 club0 ''Anna'' ''abc'' = (club0, Uncaught ValueError)
   \<and> create_class platform0 club0 ''abc'' ''Anna'' [] ''x'' ''y'' = (club0, Uncaught ValueError)
   \<and> add_health_metric platform0 202501011200 club0 ''1'' ''Pulse'' ''abc''
       = (club0, Uncaught ValueError)
   \<and> book_pt_session platform0 club0 ''abc'' ''Anna'' [] = (club0, Invalid)
   \<and> signup_for_class platform0 202501011200 club0 ''abc'' ''Anna'' = (club0, Invalid)"
  using unguarded_conversion [where p = platform0 and s = "''abc''" and d = club0
      and a = "''Anna''" and b = "[]" and c = "''x''" and e = "''y''" and now = 202501011200]
    unguarded_conversion [where p = platform0 and s = "''abc''" and d = club0
      and a = "''1''" and b = "''Pulse''" and now = 202501011200]
  by (simp add: platform0_defs)

section \<open>Enrolling in a class\<close>

lemma find_Some_in:
  "k \<in> set (map f xs) \<Longrightarrow> \<exists>x. find (\<lambda>x. f x = k) xs = Some x \<and> x \<in> set xs \<and> f x = k"
  by (induction xs) auto

lemma find_pair_None:
  "find (\<lambda>e. f e = a \<and> g e = b) xs = None \<longleftrightarrow> (a, b) \<notin> set (map (\<lambda>e. (f e, g e)) xs)"
  by (induction xs) auto

lemma enrollment_count_append:
  "enrollments d' = enrollments d @ [e] \<Longrightarrow>
     enrollment_count d' cid =
       enrollment_count d cid + (if ClassEnrollment.class_id e = cid then 1 else 0)"
  by (simp add: enrollment_count_def)

text \<open>
  Claim C4. The operation is signup_for_class. When the lines typed are the key of a
  member of the store and the key of a class of the store, it ends with AlreadyEnrolled
  and the store as it was when the member has an enrollment in the class; else with
  ClassFull and the store as it was when the class has at least as many enrollments as
  its capacity; else it adds one enrollment of the member in the class, dated \<open>now\<close>, and
  reports the capacity of the class minus the new count of its enrollments.
\<close>

theorem signup_for_class_outcomes:
  assumes "py_int p member_id_in = Some mid" and "py_int p class_id_in = Some cid"
      and "mid \<in> set (map Member.member_id (members d))"
      and "find (\<lambda>c. Class.class_id c = cid) (classes d) = Some c"
      and "int4 mid" and "int4 cid"
  shows "signup_for_class p now d member_id_in class_id_in =
     (if (mid, cid) \<in> set (map (\<lambda>e. (ClassEnrollment.member_id e, ClassEnrollment.class_id e))
                              (enrollments d))
      then (d, AlreadyEnrolled)
      else if Class.capacity c \<le> enrollment_count d cid then (d, ClassFull)
      else let d' = d\<lparr>enrollment_seq := enrollment_seq d + 1,
                      enrollments := enrollments d @
                        [\<lparr>enrollment_id = enrollment_seq d, ClassEnrollment.member_id = mid,
                          ClassEnrollment.class_id = cid, enrollment_date = now\<rparr>]\<rparr>
           in (d', DoneRemaining (Class.capacity c - enrollment_count d' cid)))"
proof -
  obtain m where m: "find (\<lambda>m. Member.member_id m = mid) (members d) = Some m"
    using find_Some_in [OF assms(3)] by blast
  have cid: "cid \<in> set (map Class.class_id (classes d))"
    using assms(4) find_None_notin [of Class.class_id cid "classes d"] by auto
  show ?thesis
  proof (cases "(mid, cid) \<in> set (map (\<lambda>e. (ClassEnrollment.member_id e,
                   ClassEnrollment.class_id e)) (enrollments d))")
    case True
    then have "find (\<lambda>e. ClassEnrollment.member_id e = mid \<and> ClassEnrollment.class_id e = cid)
                 (enrollments d) \<noteq> None"
      by (simp only: find_pair_None) simp
    then obtain x where "find (\<lambda>e. ClassEnrollment.member_id e = mid \<and>
                 ClassEnrollment.class_id e = cid) (enrollments d) = Some x"
      by blast
    then show ?thesis
      using True assms(1,2,4) m by (simp add: signup_for_class_def)
  next
    case False
    then have n: "find (\<lambda>e. ClassEnrollment.member_id e = mid \<and> ClassEnrollment.class_id e = cid)
                 (enrollments d) = None"
      by (simp only: find_pair_None) simp
    have ins: "insert_ClassEnrollment d mid cid now =
        (d\<lparr>enrollment_seq := enrollment_seq d + 1,
           enrollments := enrollments d @
             [\<lparr>enrollment_id = enrollment_seq d, ClassEnrollment.member_id = mid,
               ClassEnrollment.class_id = cid, enrollment_date = now\<rparr>]\<rparr>,
         Inr (enrollment_seq d))"
      using False assms(3,5,6) cid by (simp add: insert_ClassEnrollment_def Let_def)
    show ?thesis
      using False assms(1,2,4) m n ins
      by (simp add: signup_for_class_def Let_def enrollment_count_def)
  qed
qed

theorem signup_for_class_outcomes_witness:
  "signup_for_class platform0 202501010800 club1 ''2'' ''1'' =
     (club1\<lparr>enrollment_seq := 3,
            enrollments := enrollments club1 @
              [\<lparr>enrollment_id = 2, ClassEnrollment.member_id = 2,
                ClassEnrollment.class_id = 1, enrollment_date = 202501010800\<rparr>]\<rparr>,
      DoneRemaining 9)
   \<and> signup_for_class platform0 202501010800 club1 ''1'' ''2'' = (club1, AlreadyEnrolled)
   \<and> signup_for_class platform0 202501010800 club1 ''2'' ''2'' = (club1, ClassFull)"
  using
    signup_for_class_outcomes [where p = platform0 and d = club1 and now = 202501010800
      and member_id_in = "''2''" and mid = 2 and class_id_in = "''1''" and cid = 1
      and c = "\<lparr>Class.class_id = 1, Class.trainer_id = 1, Class.room_id = 1,
          class_name = ''Morning Yoga'', class_time = 202501011000, Class.capacity = 10\<rparr>"]
    signup_for_class_outcomes [where p = platform0 and d = club1 and now = 202501010800
      and member_id_in = "''1''" and mid = 1 and class_id_in = "''2''" and cid = 2
      and c = "\<lparr>Class.class_id = 2, Class.trainer_id = 1, Class.room_id = 1,
          class_name = ''Private Yoga'', class_time = 202501011200, Class.capacity = 1\<rparr>"]
    signup_for_class_outcomes [where p = platform0 and d = club1 and now = 202501010800
      and member_id_in = "''2''" and mid = 2 and class_id_in = "''2''" and cid = 2
      and c = "\<lparr>Class.class_id = 2, Class.trainer_id = 1, Class.room_id = 1,
          class_name = ''Private Yoga'', class_time = 202501011200, Class.capacity = 1\<rparr>"]
  by (simp add: club1_eq club0_eq platform0_defs int4_def enrollment_count_def)

section \<open>Booking a session with a trainer\<close>

lemma insert_PTSession_Inr:
  "insert_PTSession d mid tid tm st = (d', Inr k) \<Longrightarrow>
     int4 tid \<and>
     d' = d\<lparr>session_seq := session_seq d + 1,
           pt_sessions := pt_sessions d @
             [\<lparr>session_id = session_seq d, PTSession.member_id = mid,
               PTSession.trainer_id = tid, session_time = tm, status = st\<rparr>]\<rparr>"
  by (auto simp: insert_PTSession_def Let_def split: if_splits)

lemma book_pt_session_Done:
  assumes "book_pt_session p d member_id_in trainer_id_in session_time_in = (d1, Done)"
      and "py_int p trainer_id_in = Some tid"
      and "strptime_minute p session_time_in = Some tm"
  shows "\<exists>mid. int4 tid \<and>
           d1 = d\<lparr>session_seq := session_seq d + 1,
                  pt_sessions := pt_sessions d @
                    [\<lparr>session_id = session_seq d, PTSession.member_id = mid,
                      PTSession.trainer_id = tid, session_time = tm,
                      status = ''scheduled''\<rparr>]\<rparr>"
  using assms
  by (auto simp: book_pt_session_def split: option.splits prod.splits sum.splits
        dest!: insert_PTSession_Inr)

text \<open>
  Claim C5. book_pt_session ends with Invalid and the store as it was when the line typed
  for the time does not parse. When a booking has succeeded, its session is in the store
  with status "scheduled", and a second booking for the same trainer at the same time
  fails with the integrity error of the constraint uq_trainer_time, the sessions in the
  store being as they were. The operation queries neither the member nor the trainer: a
  key that no member has, or no trainer, fails with the integrity error of the foreign
  key.
\<close>

theorem book_pt_session_errors:
  assumes "py_int p member_id_in = Some mid" and "py_int p trainer_id_in = Some tid"
      and "strptime_minute p session_time_in = Some tm" and "int4 mid"
  shows "(\<forall>a b s. strptime_minute p s = None \<longrightarrow> book_pt_session p d a b s = (d, Invalid))
    \<and> (\<forall>a d1. book_pt_session p d a trainer_id_in session_time_in = (d1, Done)
          \<longrightarrow> (\<exists>s. pt_sessions d1 = pt_sessions d @ [s] \<and> PTSession.trainer_id s = tid
                    \<and> session_time s = tm \<and> status s = ''scheduled'')
              \<and> book_pt_session p d1 member_id_in trainer_id_in session_time_in
                  = (d1\<lparr>session_seq := session_seq d1 + 1\<rparr>,
                     Failed (IntegrityError ''uq_trainer_time'')))
    \<and> (int4 tid
        \<and> (tid, tm) \<notin> set (map (\<lambda>s. (PTSession.trainer_id s, session_time s)) (pt_sessions d))
        \<and> mid \<notin> set (map Member.member_id (members d))
          \<longrightarrow> book_pt_session p d member_id_in trainer_id_in session_time_in
                = (d\<lparr>session_seq := session_seq d + 1\<rparr>,
                   Failed (IntegrityError ''PTSession_member_id_fkey'')))
    \<and> (int4 tid
        \<and> (tid, tm) \<notin> set (map (\<lambda>s. (PTSession.trainer_id s, session_time s)) (pt_sessions d))
        \<and> mid \<in> set (map Member.member_id (members d))
        \<and> tid \<notin> set (map Trainer.trainer_id (trainers d))
          \<longrightarrow> book_pt_session p d member_id_in trainer_id_in session_time_in
                = (d\<lparr>session_seq := session_seq d + 1\<rparr>,
                   Failed (IntegrityError ''PTSession_trainer_id_fkey'')))"
proof (intro conjI allI impI)
  fix a b s
  assume "strptime_minute p s = None"
  then show "book_pt_session p d a b s = (d, Invalid)"
    by (simp add: book_pt_session_def split: option.splits)
next
  fix a d1
  assume "book_pt_session p d a trainer_id_in session_time_in = (d1, Done)"
  then obtain m1 where d1: "int4 tid"
      "d1 = d\<lparr>session_seq := session_seq d + 1,
              pt_sessions := pt_sessions d @
                [\<lparr>session_id = session_seq d, PTSession.member_id = m1,
                  PTSession.trainer_id = tid, session_time = tm, status = ''scheduled''\<rparr>]\<rparr>"
    using book_pt_session_Done [OF _ assms(2,3)] by blast
  show "\<exists>s. pt_sessions d1 = pt_sessions d @ [s] \<and> PTSession.trainer_id s = tid
                    \<and> session_time s = tm \<and> status s = ''scheduled''"
    using d1(2) by simp
  show "book_pt_session p d1 member_id_in trainer_id_in session_time_in
          = (d1\<lparr>session_seq := session_seq d1 + 1\<rparr>, Failed (IntegrityError ''uq_trainer_time''))"
    using assms d1
    by (simp add: book_pt_session_def insert_PTSession_def varchar_def Let_def)
next
  assume "int4 tid
        \<and> (tid, tm) \<notin> set (map (\<lambda>s. (PTSession.trainer_id s, session_time s)) (pt_sessions d))
        \<and> mid \<notin> set (map Member.member_id (members d))"
  then show "book_pt_session p d member_id_in trainer_id_in session_time_in
                = (d\<lparr>session_seq := session_seq d + 1\<rparr>,
                   Failed (IntegrityError ''PTSession_member_id_fkey''))"
    using assms by (simp add: book_pt_session_def insert_PTSession_def varchar_def Let_def)
next
  assume "int4 tid
        \<and> (tid, tm) \<notin> set (map (\<lambda>s. (PTSession.trainer_id s, session_time s)) (pt_sessions d))
        \<and> mid \<in> set (map Member.member_id (members d))
        \<and> tid \<notin> set (map Trainer.trainer_id (trainers d))"
  then show "book_pt_session p d member_id_in trainer_id_in session_time_in
                = (d\<lparr>session_seq := session_seq d + 1\<rparr>,
                   Failed (IntegrityError ''PTSession_trainer_id_fkey''))"
    using assms by (simp add: book_pt_session_def insert_PTSession_def varchar_def Let_def)
qed

theorem book_pt_session_errors_witness:
  "book_pt_session platform0 club0 ''2'' ''1'' ''tomorrow at nine'' = (club0, Invalid)
   \<and> book_pt_session platform0 club0 ''1'' ''1'' ''2025-01-02 09:00''
       = (club0\<lparr>session_seq := 2,
                pt_sessions :=
                  [\<lparr>session_id = 1, PTSession.member_id = 1, PTSession.trainer_id = 1,
                    session_time = 202501020900, status = ''scheduled''\<rparr>]\<rparr>, Done)
   \<and> book_pt_session platform0
        (club0\<lparr>session_seq := 2,
                pt_sessions :=
                  [\<lparr>session_id = 1, PTSession.member_id = 1, PTSession.trainer_id = 1,
                    session_time = 202501020900, status = ''scheduled''\<rparr>]\<rparr>)
        ''2'' ''1'' ''2025-01-02 09:00''
       = (club0\<lparr>session_seq := 3,
                pt_sessions :=
                  [\<lparr>session_id = 1, PTSession.member_id = 1, PTSession.trainer_id = 1,
                    session_time = 202501020900, status = ''scheduled''\<rparr>]\<rparr>,
          Failed (IntegrityError ''uq_trainer_time''))
   \<and> book_pt_session platform0 club0 ''9'' ''1'' ''2025-01-02 09:00''
       = (club0\<lparr>session_seq := 2\<rparr>, Failed (IntegrityError ''PTSession_member_id_fkey''))
   \<and> book_pt_session platform0 club0 ''2'' ''7'' ''2025-01-02 09:00''
       = (club0\<lparr>session_seq := 2\<rparr>, Failed (IntegrityError ''PTSession_trainer_id_fkey''))"
proof -
  let ?d1 = "club0\<lparr>session_seq := 2,
                pt_sessions :=
                  [\<lparr>session_id = 1, PTSession.member_id = 1, PTSession.trainer_id = 1,
                    session_time = 202501020900, status = ''scheduled''\<rparr>]\<rparr>"
  have first: "book_pt_session platform0 club0 ''1'' ''1'' ''2025-01-02 09:00'' = (?d1, Done)"
    by (simp add: club0_eq book_pt_session_def store_defs platform0_defs)
  have i: "book_pt_session platform0 club0 ''2'' ''1'' ''tomorrow at nine'' = (club0, Invalid)"
    using book_pt_session_errors [where p = platform0 and d = club0
        and member_id_in = "''2''" and mid = 2 and trainer_id_in = "''1''" and tid = 1
        and session_time_in = "''2025-01-02 09:00''" and tm = 202501020900]
    by (simp add: platform0_defs int4_def)
  have second: "book_pt_session platform0 ?d1 ''2'' ''1'' ''2025-01-02 09:00''
       = (?d1\<lparr>session_seq := session_seq ?d1 + 1\<rparr>, Failed (IntegrityError ''uq_trainer_time''))"
    using first book_pt_session_errors [where p = platform0 and d = club0
        and member_id_in = "''2''" and mid = 2 and trainer_id_in = "''1''" and tid = 1
        and session_time_in = "''2025-01-02 09:00''" and tm = 202501020900]
    by (simp add: platform0_defs int4_def)
  have m: "book_pt_session platform0 club0 ''9'' ''1'' ''2025-01-02 09:00''
       = (club0\<lparr>session_seq := 2\<rparr>, Failed (IntegrityError ''PTSession_member_id_fkey''))"
    using book_pt_session_errors [where p = platform0 and d = club0
        and member_id_in = "''9''" and mid = 9 and trainer_id_in = "''1''" and tid = 1
        and session_time_in = "''2025-01-02 09:00''" and tm = 202501020900]
    by (simp add: club0_eq platform0_defs int4_def)
  have t: "book_pt_session platform0 club0 ''2'' ''7'' ''2025-01-02 09:00''
       = (club0\<lparr>session_seq := 2\<rparr>, Failed (IntegrityError ''PTSession_trainer_id_fkey''))"
    using book_pt_session_errors [where p = platform0 and d = club0
        and member_id_in = "''2''" and mid = 2 and trainer_id_in = "''7''" and tid = 7
        and session_time_in = "''2025-01-02 09:00''" and tm = 202501020900]
    by (simp add: club0_eq platform0_defs int4_def)
  show ?thesis using first i second m t by (simp add: club0_eq)
qed

section \<open>Updating a profile with blank lines\<close>

lemma update_Member_blank: "update_Member d mid None None = Inr d"
  by (simp add: update_Member_def varchar_opt_def cong: if_cong)

lemma update_Member_name_kept:
  "update_Member d mid None q = Inr d' \<Longrightarrow> map Member.name (members d') = map Member.name (members d)"
  by (auto simp: update_Member_def split: if_splits)

lemma update_Member_phone_kept:
  "update_Member d mid n None = Inr d' \<Longrightarrow> map phone (members d') = map phone (members d)"
  by (auto simp: update_Member_def split: if_splits)

text \<open>
  Claim C6. When the line typed for the member is the key of a member of the store and
  the lines typed for the name and for the phone are blank (empty once stripped),
  update_member_profile leaves the store as it was and ends with success. Whatever else is
  typed, a blank line for the name leaves the names of all members as they were, and a
  blank line for the phone leaves their phones as they were.
\<close>

theorem blank_profile_update:
  "(py_int p member_id_in = Some mid \<and> mid \<in> set (map Member.member_id (members d))
      \<and> str_strip p name_in = [] \<and> str_strip p phone_in = []
     \<longrightarrow> update_member_profile p d member_id_in name_in phone_in = (d, Done))
   \<and> (str_strip p name_in = []
     \<longrightarrow> map Member.name (members (fst (update_member_profile p d member_id_in name_in phone_in)))
          = map Member.name (members d))
   \<and> (str_strip p phone_in = []
     \<longrightarrow> map phone (members (fst (update_member_profile p d member_id_in name_in phone_in)))
          = map phone (members d))"
proof (intro conjI impI)
  assume a: "py_int p member_id_in = Some mid \<and> mid \<in> set (map Member.member_id (members d))
      \<and> str_strip p name_in = [] \<and> str_strip p phone_in = []"
  then obtain m where "find (\<lambda>m. Member.member_id m = mid) (members d) = Some m"
    using find_Some_in [of mid Member.member_id "members d"] by blast
  with a show "update_member_profile p d member_id_in name_in phone_in = (d, Done)"
    by (simp add: update_member_profile_def or_None_def update_Member_blank)
next
  assume "str_strip p name_in = []"
  then show "map Member.name (members (fst (update_member_profile p d member_id_in name_in phone_in)))
          = map Member.name (members d)"
    by (auto simp: update_member_profile_def or_None_def Let_def
          split: option.splits sum.splits dest: update_Member_name_kept)
next
  assume "str_strip p phone_in = []"
  then show "map phone (members (fst (update_member_profile p d member_id_in name_in phone_in)))
          = map phone (members d)"
    by (auto simp: update_member_profile_def or_None_def Let_def
          split: option.splits sum.splits dest: update_Member_phone_kept)
qed

theorem blank_profile_update_witness:
  "update_member_profile platform0 club0 ''1'' ''  '' [] = (club0, Done)
   \<and> map Member.name (members (fst (update_member_profile platform0 club0 ''1''
            [] ''555-0199''))) = [''Ann'', ''Bob'']
   \<and> map phone (members (fst (update_member_profile platform0 club0 ''1''
            ''Anna'' [CHR 0x09]))) = [Some ''555-0100'', None]"
  using
    blank_profile_update [where p = platform0 and d = club0 and member_id_in = "''1''"
      and mid = 1 and name_in = "''  ''" and phone_in = "[]"]
    blank_profile_update [where p = platform0 and d = club0 and member_id_in = "''1''"
      and mid = 1 and name_in = "[]" and phone_in = "''555-0199''"]
    blank_profile_update [where p = platform0 and d = club0 and member_id_in = "''1''"
      and mid = 1 and name_in = "''Anna''" and phone_in = "[CHR 0x09]"]
  by (simp add: club0_eq platform0_defs)

section \<open>Registering with a date of birth that does not parse\<close>

text \<open>
  Claim C7. When the line typed for the date of birth is not empty and does not parse,
  and the other values fit their columns and the e-mail address is not taken,
  register_member creates the Member row with no date of birth and ends with success.
\<close>

theorem register_member_bad_dob:
  assumes "dob_in \<noteq> []" and "strptime_date p dob_in = None"
      and "varchar 100 name_in" and "varchar 100 email_in"
      and "varchar 10 gender_in" and "varchar 20 phone_in"
      and "email_in \<notin> set (map Member.email (members d))"
  shows "register_member p d name_in email_in dob_in gender_in phone_in =
           (d\<lparr>member_seq := member_seq d + 1,
              members := members d @
                [\<lparr>Member.member_id = member_seq d, Member.name = name_in,
                  Member.email = email_in, date_of_birth = None,
                  gender = or_None gender_in, phone = or_None phone_in\<rparr>]\<rparr>,
            DoneId (member_seq d))"
  using assms
  by (simp add: register_member_def insert_Member_def or_None_def varchar_opt_def Let_def)

theorem register_member_bad_dob_witness:
  "register_member platform0 club0 ''Cy'' ''cy@example.org'' ''31/12/1990'' ''m'' [] =
     (club0\<lparr>member_seq := 4,
            members := members club0 @
              [\<lparr>Member.member_id = 3, Member.name = ''Cy'', Member.email = ''cy@example.org'',
                date_of_birth = None, gender = Some ''m'', phone = None\<rparr>]\<rparr>,
      DoneId 3)"
  using register_member_bad_dob [where p = platform0 and d = club0 and name_in = "''Cy''"
      and email_in = "''cy@example.org''" and dob_in = "''31/12/1990''"
      and gender_in = "''m''" and phone_in = "[]"]
  by (simp add: club0_eq platform0_defs varchar_def or_None_def)

section \<open>Empty names and e-mail addresses\<close>

text \<open>
  Claim C10. register_member and create_trainer, given the empty line for the name and
  for the e-mail address, create a row whose name and e-mail address are the empty string
  and end with success, when the other values fit their columns and no row has the empty
  e-mail address yet: the columns are NOT NULL, which the empty string satisfies, and
  neither operation looks at the two lines.
\<close>

theorem empty_name_and_email_accepted:
  "(varchar 10 gender_in \<and> varchar 20 phone_in \<and> [] \<notin> set (map Member.email (members d))
     \<longrightarrow> (\<exists>m. members (fst (register_member p d [] [] dob_in gender_in phone_in))
                 = members d @ [m]
              \<and> Member.name m = [] \<and> Member.email m = []
              \<and> snd (register_member p d [] [] dob_in gender_in phone_in)
                 = DoneId (Member.member_id m)))
   \<and> (varchar 100 specialization_in \<and> [] \<notin> set (map Trainer.email (trainers d))
     \<longrightarrow> (\<exists>t. trainers (fst (create_trainer p d [] [] specialization_in)) = trainers d @ [t]
              \<and> Trainer.name t = [] \<and> Trainer.email t = []
              \<and> snd (create_trainer p d [] [] specialization_in)
                 = DoneId (Trainer.trainer_id t)))"
proof (intro conjI impI)
  assume "varchar 10 gender_in \<and> varchar 20 phone_in \<and> [] \<notin> set (map Member.email (members d))"
  then show "\<exists>m. members (fst (register_member p d [] [] dob_in gender_in phone_in))
                 = members d @ [m]
              \<and> Member.name m = [] \<and> Member.email m = []
              \<and> snd (register_member p d [] [] dob_in gender_in phone_in)
                 = DoneId (Member.member_id m)"
    by (simp add: register_member_def insert_Member_def or_None_def varchar_opt_def
          varchar_def Let_def)
next
  assume "varchar 100 specialization_in \<and> [] \<notin> set (map Trainer.email (trainers d))"
  then show "\<exists>t. trainers (fst (create_trainer p d [] [] specialization_in)) = trainers d @ [t]
              \<and> Trainer.name t = [] \<and> Trainer.email t = []
              \<and> snd (create_trainer p d [] [] specialization_in)
                 = DoneId (Trainer.trainer_id t)"
    by (simp add: create_trainer_def insert_Trainer_def or_None_def varchar_opt_def
          varchar_def Let_def)
qed

theorem empty_name_and_email_accepted_witness:
  "(\<exists>m. members (fst (register_member platform0 (empty_db :: int db) [] [] [] [] [])) = [m]
        \<and> Member.name m = [] \<and> Member.email m = []
        \<and> snd (register_member platform0 (empty_db :: int db) [] [] [] [] [])
           = DoneId (Member.member_id m))
   \<and> (\<exists>t. trainers (fst (create_trainer platform0 (empty_db :: int db) [] [] [])) = [t]
        \<and> Trainer.name t = [] \<and> Trainer.email t = []
        \<and> snd (create_trainer platform0 (empty_db :: int db) [] [] [])
           = DoneId (Trainer.trainer_id t))"
  using empty_name_and_email_accepted [where p = platform0 and d = "empty_db :: int db"
      and dob_in = "[]" and gender_in = "[]" and phone_in = "[]" and specialization_in = "[]"]
  by (simp add: empty_db_def varchar_def)

section \<open>The view MemberHealthSummary\<close>

text \<open>
  Claim C8 fails on the code. The statement that creates the view names the relations
  member and healthmetric, which no store has: the statement fails in every store, on
  every platform, create_view_and_trigger prints the error and goes on, and no operation
  creates the view either. In every store reached from the empty store the view does not
  exist, so it has no row for any member.
\<close>

theorem summary_view_never_created:
  fixes p :: "'v platform" and d :: "'v db"
  shows "create_view_statement d = Some UndefinedTable
       \<and> summary_view (create_view_and_trigger p d) = summary_view d
       \<and> \<not> summary_view (exec p (startup p (empty_db :: 'v db)) cmds)"
  by (simp add: create_view_statement_fails create_view_and_trigger_eq exec_summary_view
        startup_flags empty_db_def)

theorem summary_view_never_created_witness:
  "create_view_statement club1 = Some UndefinedTable
   \<and> members club1 \<noteq> []
   \<and> \<not> summary_view club1"
proof -
  have "exec platform0 (startup platform0 empty_db) (setup_cmds @ use_cmds) = club1"
    by (simp add: exec_append club0_def club1_def)
  then have "create_view_statement club1 = Some UndefinedTable \<and> \<not> summary_view club1"
    using summary_view_never_created [of club1 platform0 "setup_cmds @ use_cmds"] by simp
  moreover have "members club1 \<noteq> []" by (simp add: club1_eq club0_eq)
  ultimately show ?thesis by simp
qed

end
